theory Spec2Isabelle
  imports Main
begin

section \<open>Python values and exceptions\<close>

text \<open>
  The exceptions that the modelled functions can let escape.  None of the functions of
  \<^verbatim>\<open>app/utils.py\<close> contains a \<^verbatim>\<open>try\<close> block, so an exception raised anywhere
  ends the call: a result is \<open>Inl e\<close> (the call raised \<open>e\<close>) or \<open>Inr v\<close> (it returned \<open>v\<close>).
\<close>

datatype py_error =
    KeyError
  | TypeError
  | IndexError
  | AttributeError
  | BadZipFile
  | PdfError
  | OverflowError
  | ClientError
  | ValueError
  | ArgumentTypeError
  | ImportError
  | ConnectionError

definition bind_err :: "py_error + 'a \<Rightarrow> ('a \<Rightarrow> py_error + 'b) \<Rightarrow> py_error + 'b" where
  "bind_err m f = (case m of Inl e \<Rightarrow> Inl e | Inr v \<Rightarrow> f v)"

section \<open>Document extraction: \<^verbatim>\<open>extract_text_and_tables_from_pdf\<close>\<close>

text \<open>
  The function receives the bytes of a ZIP archive and hands them to two libraries,
  \<^verbatim>\<open>zipfile\<close> and \<^verbatim>\<open>pdfplumber\<close>.  The bytes are represented by what these
  libraries make of them:
  \<^item> \<^verbatim>\<open>zipfile.ZipFile(...)\<close> raises \<^verbatim>\<open>BadZipFile\<close> (\<open>BadZip\<close>) or yields the members
    in the order of \<^verbatim>\<open>namelist()\<close> (\<open>Zip\<close>);
  \<^item> reading a member and opening it with \<^verbatim>\<open>pdfplumber.open\<close> raises (\<open>Inl e\<close>) or
    yields the pages of the document (\<open>Inr pages\<close>);
  \<^item> a page answers \<^verbatim>\<open>extract_text()\<close> with a string or \<^verbatim>\<open>None\<close>, and
    \<^verbatim>\<open>extract_tables()\<close> with a list of tables; a table is a list of rows of cells, a
    cell a string or \<^verbatim>\<open>None\<close>.
\<close>

type_synonym table = "string option list list"

record page =
  extract_text :: "string option"
  extract_tables :: "table list"

datatype archive =
    BadZip
  | Zip "(string \<times> (py_error + page list)) list"

text \<open>Truth value of the result of \<^verbatim>\<open>extract_text()\<close>: \<^verbatim>\<open>None\<close> and \<^verbatim>\<open>""\<close> are false.\<close>

fun text_truthy :: "string option \<Rightarrow> bool" where
  "text_truthy None = False"
| "text_truthy (Some t) = (t \<noteq> [])"

text \<open>
  The loop over \<^verbatim>\<open>pdf.pages\<close>, with the two accumulators \<^verbatim>\<open>text\<close> and
  \<^verbatim>\<open>tables\<close>.  The inner loop appends the tables of the page one by one, which is
  \<open>tables @ extract_tables p\<close>.
\<close>

fun extract_pages :: "page list \<Rightarrow> string \<Rightarrow> table list \<Rightarrow> string \<times> table list" where
  "extract_pages [] text tables = (text, tables)"
| "extract_pages (p # ps) text tables =
     (let page_text = extract_text p;
          text' = (if text_truthy page_text then text @ the page_text @ [CHR 0x0A] else text);
          page_tables = extract_tables p
      in extract_pages ps text' (tables @ page_tables))"

definition extract_text_and_tables_from_pdf :: "archive \<Rightarrow> py_error + (string \<times> table list)" where
  "extract_text_and_tables_from_pdf zip_bytes =
     (case zip_bytes of
        BadZip \<Rightarrow> Inl BadZipFile
      | Zip members \<Rightarrow>
          (case members of
             [] \<Rightarrow> Inl IndexError
           | (pdf_name, pdf) # _ \<Rightarrow>
               (case pdf of
                  Inl e \<Rightarrow> Inl e
                | Inr pages \<Rightarrow> Inr (extract_pages pages [] []))))"

text \<open>What one page contributes to the text.\<close>

definition page_line :: "page \<Rightarrow> string" where
  "page_line p = (case extract_text p of
                    None \<Rightarrow> []
                  | Some t \<Rightarrow> (if t = [] then [] else t @ [CHR 0x0A]))"

section \<open>JSON values as Python sees them\<close>

text \<open>
  The normalizer works on the object that \<^verbatim>\<open>json\<close> produces: \<^verbatim>\<open>None\<close>, booleans,
  integers, strings, lists and dictionaries.  A dictionary keeps its keys in insertion
  order, so it is an association list; a key is looked up by its first occurrence.
  Characters are code points below 256.  Floating-point numbers are left out.
\<close>

datatype json =
    JNull
  | JBool bool
  | JInt int
  | JStr string
  | JArr "json list"
  | JObj "(string \<times> json) list"

text \<open>The truth value of an object, as \<^verbatim>\<open>not x\<close> and \<^verbatim>\<open>if x\<close> use it.\<close>

fun truthy :: "json \<Rightarrow> bool" where
  "truthy JNull = False"
| "truthy (JBool b) = b"
| "truthy (JInt i) = (i \<noteq> 0)"
| "truthy (JStr s) = (s \<noteq> [])"
| "truthy (JArr xs) = (xs \<noteq> [])"
| "truthy (JObj kvs) = (kvs \<noteq> [])"

text \<open>\<^verbatim>\<open>len(x)\<close>.\<close>

fun py_len :: "json \<Rightarrow> py_error + nat" where
  "py_len (JStr s) = Inr (length s)"
| "py_len (JArr xs) = Inr (length xs)"
| "py_len (JObj kvs) = Inr (length kvs)"
| "py_len _ = Inl TypeError"

text \<open>\<^verbatim>\<open>x[k]\<close> for a string \<open>k\<close>: only a dictionary accepts a string as subscript.\<close>

fun getitem :: "json \<Rightarrow> string \<Rightarrow> py_error + json" where
  "getitem (JObj kvs) k = (case map_of kvs k of None \<Rightarrow> Inl KeyError | Some v \<Rightarrow> Inr v)"
| "getitem _ k = Inl TypeError"

text \<open>
  \<^verbatim>\<open>x[i]\<close> for an integer \<open>i\<close>: a negative index counts from the end; a string
  answers with a string of one character; the keys of a dictionary that came from JSON
  are strings, so no integer is among them.
\<close>

definition py_index :: "'a list \<Rightarrow> int \<Rightarrow> py_error + 'a" where
  "py_index xs i =
     (if 0 \<le> i \<and> i < int (length xs) then Inr (xs ! nat i)
      else if i < 0 \<and> - int (length xs) \<le> i then Inr (xs ! nat (int (length xs) + i))
      else Inl IndexError)"

fun getitem_int :: "json \<Rightarrow> int \<Rightarrow> py_error + json" where
  "getitem_int (JArr xs) i = py_index xs i"
| "getitem_int (JStr s) i = map_sum id (\<lambda>c. JStr [c]) (py_index s i)"
| "getitem_int (JObj kvs) i = Inl KeyError"
| "getitem_int _ i = Inl TypeError"

text \<open>
  \<^verbatim>\<open>d[k] = v\<close> on a dictionary: an existing key keeps its place, a new key goes to the
  end.
\<close>

fun dict_set :: "(string \<times> json) list \<Rightarrow> string \<Rightarrow> json \<Rightarrow> (string \<times> json) list" where
  "dict_set [] k v = [(k, v)]"
| "dict_set ((k', v') # kvs) k v =
     (if k' = k then (k, v) # kvs else (k', v') # dict_set kvs k v)"

fun setitem :: "json \<Rightarrow> string \<Rightarrow> json \<Rightarrow> py_error + json" where
  "setitem (JObj kvs) k v = Inr (JObj (dict_set kvs k v))"
| "setitem _ k v = Inl TypeError"

text \<open>\<^verbatim>\<open>k in x\<close> for a string \<open>k\<close>.\<close>

fun is_substr :: "string \<Rightarrow> string \<Rightarrow> bool" where
  "is_substr k [] = (k = [])"
| "is_substr k (c # s) = (take (length k) (c # s) = k \<or> is_substr k s)"

fun py_contains :: "json \<Rightarrow> string \<Rightarrow> py_error + bool" where
  "py_contains (JObj kvs) k = Inr (k \<in> set (map fst kvs))"
| "py_contains (JArr xs) k = Inr (JStr k \<in> set xs)"
| "py_contains (JStr s) k = Inr (is_substr k s)"
| "py_contains _ k = Inl TypeError"

text \<open>\<^verbatim>\<open>for x in v\<close>: a dictionary yields its keys, a string its characters.\<close>

fun py_iter :: "json \<Rightarrow> py_error + json list" where
  "py_iter (JArr xs) = Inr xs"
| "py_iter (JObj kvs) = Inr (map (\<lambda>kv. JStr (fst kv)) kvs)"
| "py_iter (JStr s) = Inr (map (\<lambda>c. JStr [c]) s)"
| "py_iter _ = Inl TypeError"

text \<open>\<^verbatim>\<open>v.items()\<close>: only a dictionary has the method.\<close>

fun py_items :: "json \<Rightarrow> py_error + (string \<times> json) list" where
  "py_items (JObj kvs) = Inr kvs"
| "py_items _ = Inl AttributeError"

subsection \<open>String methods\<close>

definition endswith :: "string \<Rightarrow> string \<Rightarrow> bool" where
  "endswith s suffix =
     (length suffix \<le> length s \<and> drop (length s - length suffix) s = suffix)"

text \<open>\<^verbatim>\<open>v.endswith(suffix)\<close>: only a string has the method.\<close>

fun py_endswith :: "json \<Rightarrow> string \<Rightarrow> py_error + bool" where
  "py_endswith (JStr s) suffix = Inr (endswith s suffix)"
| "py_endswith _ suffix = Inl AttributeError"

text \<open>\<^verbatim>\<open>s.split(c)\<close> for a separator of one character: never an empty list.\<close>

fun split_chr :: "char \<Rightarrow> string \<Rightarrow> string list" where
  "split_chr c [] = [[]]"
| "split_chr c (x # xs) =
     (if x = c then [] # split_chr c xs
      else (case split_chr c xs of
              [] \<Rightarrow> [[x]]
            | w # ws \<Rightarrow> (x # w) # ws))"

fun py_split :: "json \<Rightarrow> char \<Rightarrow> py_error + string list" where
  "py_split (JStr s) c = Inr (split_chr c s)"
| "py_split _ c = Inl AttributeError"

text \<open>\<^verbatim>\<open>sep.join(xs)\<close> and the slice \<^verbatim>\<open>xs[-2:]\<close>.\<close>

fun py_join :: "string \<Rightarrow> string list \<Rightarrow> string" where
  "py_join sep [] = []"
| "py_join sep [x] = x"
| "py_join sep (x # y # ys) = x @ sep @ py_join sep (y # ys)"

definition last_two :: "'a list \<Rightarrow> 'a list" where
  "last_two xs = drop (length xs - 2) xs"

subsection \<open>\<^verbatim>\<open>json.dumps\<close>\<close>

text \<open>
  \<^verbatim>\<open>json.dumps\<close> with its default arguments: items separated by a comma and a space,
  key and value by a colon and a space, keys in the order of the dictionary, and
  \<^verbatim>\<open>ensure_ascii\<close>: the characters from space to tilde stand for themselves, except the
  quotation mark and the backslash; the others are escaped.
\<close>

definition hex_digit :: "nat \<Rightarrow> char" where
  "hex_digit n = ''0123456789abcdef'' ! (n mod 16)"

definition escape_char :: "char \<Rightarrow> string" where
  "escape_char c =
     (if c = CHR 0x22 then [CHR 0x5C, CHR 0x22]
      else if c = CHR 0x5C then [CHR 0x5C, CHR 0x5C]
      else if c = CHR 0x0A then [CHR 0x5C, CHR ''n'']
      else if c = CHR 0x0D then [CHR 0x5C, CHR ''r'']
      else if c = CHR 0x09 then [CHR 0x5C, CHR ''t'']
      else if c = CHR 0x08 then [CHR 0x5C, CHR ''b'']
      else if c = CHR 0x0C then [CHR 0x5C, CHR ''f'']
      else if 32 \<le> (of_char c :: nat) \<and> (of_char c :: nat) \<le> 126 then [c]
      else [CHR 0x5C, CHR ''u'', CHR ''0'', CHR ''0'',
            hex_digit (of_char c div 16), hex_digit (of_char c)])"

definition encode_basestring_ascii :: "string \<Rightarrow> string" where
  "encode_basestring_ascii s = [CHR 0x22] @ concat (map escape_char s) @ [CHR 0x22]"

function str_nat :: "nat \<Rightarrow> string" where
  "str_nat n =
     (if n < 10 then [''0123456789'' ! n]
      else str_nat (n div 10) @ [''0123456789'' ! (n mod 10)])"
  by pat_completeness auto
termination
  by (relation "measure id") auto

definition str_int :: "int \<Rightarrow> string" where
  "str_int i = (if i < 0 then CHR ''-'' # str_nat (nat (- i)) else str_nat (nat i))"

primrec json_dumps :: "json \<Rightarrow> string" where
  "json_dumps JNull = ''null''"
| "json_dumps (JBool b) = (if b then ''true'' else ''false'')"
| "json_dumps (JInt i) = str_int i"
| "json_dumps (JStr s) = encode_basestring_ascii s"
| "json_dumps (JArr xs) = ''['' @ py_join '', '' (map json_dumps xs) @ '']''"
| "json_dumps (JObj kvs) =
     ''{'' @ py_join '', ''
              (map (\<lambda>kv. encode_basestring_ascii (fst kv) @ '': '' @ snd kv)
                 (map (map_prod id json_dumps) kvs)) @ ''}''"

section \<open>Normalization: \<^verbatim>\<open>get_json_data_in_pandas\<close>\<close>

text \<open>
  Two functions of the pandas library decide the start date of a card.  They are
  parameters of the model: \<open>to_datetime lib v\<close> is
  \<^verbatim>\<open>pd.to_datetime(v, errors='coerce')\<close> and \<open>isnull lib d\<close> is the truth value of
  \<^verbatim>\<open>pd.isnull(d)\<close>; \<open>'dt\<close> is the type of the values that \<^verbatim>\<open>pd.to_datetime\<close>
  returns.  \<open>lib\<close> is the library as it answers during one call of the function:
  \<^verbatim>\<open>pd.to_datetime\<close> reads the clock for the words \<^verbatim>\<open>now\<close> and \<^verbatim>\<open>today\<close>, so two
  calls of the function may see two different values of \<open>lib\<close>.
\<close>

record 'dt pandas =
  to_datetime :: "json \<Rightarrow> py_error + 'dt"
  isnull :: "'dt \<Rightarrow> py_error + bool"

text \<open>
  The rows of the three data frames, one field for each column, in the order of
  \<^verbatim>\<open>trial_info_cards_columns\<close>, \<^verbatim>\<open>trial_protocols_columns\<close> and
  \<^verbatim>\<open>trial_results_columns\<close>.  A data frame is the list of its rows;
  \<^verbatim>\<open>df.loc[len(df)] = row\<close> puts a row at its end.
\<close>

record 'dt card_row =
  cr_eudract_number :: json
  cr_start_date :: "'dt option"
  cr_sponsor_name :: json
  cr_full_title :: json
  cr_version :: json
  cr_soc_term :: json
  cr_classification_code :: json
  cr_term :: json
  cr_level :: json
  cr_json :: string

record protocol_row =
  pr_protocol_id :: string
  pr_eudract_number :: json
  pr_url :: json
  pr_json :: string

record result_row =
  rr_eudract_number :: json
  rr_version :: string
  rr_url :: json
  rr_json :: string

type_synonym 'dt frames = "'dt card_row list \<times> protocol_row list \<times> result_row list"

text \<open>
  Line 138, right-hand side:
  \<^verbatim>\<open>protocols[0]["A. Protocol Information"]["Full title of the trial"][0]\<close>.
\<close>

definition first_protocol_full_title :: "json \<Rightarrow> py_error + json" where
  "first_protocol_full_title protocols =
     bind_err (getitem_int protocols 0) (\<lambda>p0.
     bind_err (getitem p0 ''A. Protocol Information'') (\<lambda>a.
     bind_err (getitem a ''Full title of the trial'') (\<lambda>f.
     getitem_int f 0)))"

text \<open>
  Lines 137 and 138.  The assignment changes the dictionary \<^verbatim>\<open>trial_info_card\<close> in
  place, and that dictionary is the one stored in \<^verbatim>\<open>result\<close> under \<^verbatim>\<open>"card"\<close>:
  the function returns both as they are after the lines.
\<close>

definition full_title_fallback :: "json \<Rightarrow> json \<Rightarrow> json \<Rightarrow> py_error + (json \<times> json)" where
  "full_title_fallback result trial_info_card protocols =
     bind_err (getitem trial_info_card ''full_title'') (\<lambda>full_title.
     bind_err (py_endswith full_title ''...'') (\<lambda>truncated.
     if truncated then
       bind_err (first_protocol_full_title protocols) (\<lambda>v.
       bind_err (setitem trial_info_card ''full_title'' v) (\<lambda>trial_info_card'.
       bind_err (setitem result ''card'' trial_info_card') (\<lambda>result'.
       Inr (result', trial_info_card'))))
     else Inr (result, trial_info_card)))"

text \<open>Lines 140 to 151: the list \<^verbatim>\<open>new_card_info_row\<close>, evaluated from left to right.\<close>

definition new_card_info_row ::
    "json \<Rightarrow> 'dt option \<Rightarrow> json \<Rightarrow> json \<Rightarrow> json \<Rightarrow> py_error + 'dt card_row" where
  "new_card_info_row eudract_number trial_start_date trial_info_card card_disease result =
     bind_err (getitem trial_info_card ''sponsor_name'') (\<lambda>sponsor_name.
     bind_err (getitem trial_info_card ''full_title'') (\<lambda>full_title.
     bind_err (getitem card_disease ''version'') (\<lambda>version.
     bind_err (getitem card_disease ''soc_term'') (\<lambda>soc_term.
     bind_err (getitem card_disease ''classification_code'') (\<lambda>classification_code.
     bind_err (getitem card_disease ''term'') (\<lambda>term.
     bind_err (getitem card_disease ''level'') (\<lambda>level.
     Inr \<lparr> cr_eudract_number = eudract_number,
           cr_start_date = trial_start_date,
           cr_sponsor_name = sponsor_name,
           cr_full_title = full_title,
           cr_version = version,
           cr_soc_term = soc_term,
           cr_classification_code = classification_code,
           cr_term = term,
           cr_level = level,
           cr_json = json_dumps result \<rparr>)))))))"

text \<open>Lines 156 and 157: the identifier of a protocol, from the value under \<^verbatim>\<open>url\<close>.\<close>

definition protocol_id_of_url :: "string \<Rightarrow> string" where
  "protocol_id_of_url url = py_join ''-'' (last_two (split_chr CHR ''/'' url))"

definition protocol_row_of :: "json \<Rightarrow> json \<Rightarrow> py_error + protocol_row" where
  "protocol_row_of eudract_number protocol =
     bind_err (getitem protocol ''url'') (\<lambda>url.
     bind_err (py_split url CHR ''/'') (\<lambda>segments.
     let protocol_id = py_join ''-'' (last_two segments) in
     bind_err (getitem protocol ''url'') (\<lambda>url'.
     Inr \<lparr> pr_protocol_id = protocol_id,
           pr_eudract_number = eudract_number,
           pr_url = url',
           pr_json = json_dumps protocol \<rparr>)))"

text \<open>Lines 155 to 159: the loop over the protocols; the rows it appends, in order.\<close>

fun protocol_rows :: "json \<Rightarrow> json list \<Rightarrow> py_error + protocol_row list" where
  "protocol_rows eudract_number [] = Inr []"
| "protocol_rows eudract_number (protocol # rest) =
     bind_err (protocol_row_of eudract_number protocol) (\<lambda>row.
     bind_err (protocol_rows eudract_number rest) (\<lambda>rows.
     Inr (row # rows)))"

text \<open>Line 165: the row of one version of the results.\<close>

definition summary_url :: "json \<Rightarrow> py_error + json" where
  "summary_url v = bind_err (getitem v ''summary'') (\<lambda>summary. getitem summary ''url'')"

definition result_row_of :: "json \<Rightarrow> string \<Rightarrow> json \<Rightarrow> py_error + result_row" where
  "result_row_of eudract_number version v =
     bind_err (summary_url v) (\<lambda>url.
     Inr \<lparr> rr_eudract_number = eudract_number,
           rr_version = version,
           rr_url = url,
           rr_json = json_dumps v \<rparr>)"

fun result_rows_loop :: "json \<Rightarrow> (string \<times> json) list \<Rightarrow> py_error + result_row list" where
  "result_rows_loop eudract_number [] = Inr []"
| "result_rows_loop eudract_number ((version, v) # rest) =
     bind_err (result_row_of eudract_number version v) (\<lambda>row.
     bind_err (result_rows_loop eudract_number rest) (\<lambda>rows.
     Inr (row # rows)))"

text \<open>Lines 161 to 165.\<close>

definition result_rows :: "json \<Rightarrow> json \<Rightarrow> py_error + result_row list" where
  "result_rows eudract_number result =
     bind_err (py_contains result ''results'') (\<lambda>present.
     bind_err (if present then getitem result ''results'' else Inr JNull) (\<lambda>results.
     if \<not> truthy results then Inr []
     else bind_err (py_items results) (\<lambda>items.
          result_rows_loop eudract_number items)))"

text \<open>
  Lines 129 to 166, the body of the loop for a \<^verbatim>\<open>result\<close> that is not skipped: the
  rows that it appends to the three data frames, and \<^verbatim>\<open>result\<close> as the body leaves
  it.
\<close>

definition process_trial ::
    "'dt pandas \<Rightarrow> json \<Rightarrow>
       py_error + ('dt card_row \<times> protocol_row list \<times> result_row list \<times> json)" where
  "process_trial lib result =
     bind_err (getitem result ''card'') (\<lambda>trial_info_card.
     bind_err (getitem trial_info_card ''disease'') (\<lambda>card_disease.
     bind_err (getitem trial_info_card ''eudract_number'') (\<lambda>eudract_number.
     bind_err (getitem trial_info_card ''start_date'') (\<lambda>start_date.
     bind_err (to_datetime lib start_date) (\<lambda>dt.
     bind_err (getitem result ''protocols'') (\<lambda>protocols.
     bind_err (isnull lib dt) (\<lambda>null.
     let trial_start_date = (if null then None else Some dt) in
     bind_err (full_title_fallback result trial_info_card protocols) (\<lambda>(result', trial_info_card').
     bind_err (new_card_info_row eudract_number trial_start_date trial_info_card'
                 card_disease result') (\<lambda>card_row.
     bind_err (py_iter protocols) (\<lambda>protocol_list.
     bind_err (protocol_rows eudract_number protocol_list) (\<lambda>prows.
     bind_err (result_rows eudract_number result') (\<lambda>rrows.
     Inr (card_row, prows, rrows, result')))))))))))))"

text \<open>
  Lines 126 to 166: the loop over \<^verbatim>\<open>json_data["successes"]\<close>, with the three data
  frames as accumulators.  It returns the data frames and the elements of the sequence as
  the loop leaves them.
\<close>

fun normalize_loop ::
    "'dt pandas \<Rightarrow> json list \<Rightarrow> 'dt frames \<Rightarrow> py_error + ('dt frames \<times> json list)" where
  "normalize_loop lib [] dfs = Inr (dfs, [])"
| "normalize_loop lib (result # rest) dfs =
     (if \<not> truthy result then
        bind_err (normalize_loop lib rest dfs) (\<lambda>(dfs', rest').
        Inr (dfs', result # rest'))
      else
        bind_err (process_trial lib result) (\<lambda>(card_row, prows, rrows, result').
        bind_err (normalize_loop lib rest
                    (fst dfs @ [card_row], fst (snd dfs) @ prows, snd (snd dfs) @ rrows))
          (\<lambda>(dfs', rest').
        Inr (dfs', result' # rest'))))"

text \<open>
  Line 115: \<^verbatim>\<open>not json_data["successes"] or len(json_data["successes"]) < 1\<close>; the
  length is asked for only when the value is true.
\<close>

definition no_successes :: "json \<Rightarrow> py_error + bool" where
  "no_successes successes =
     (if \<not> truthy successes then Inr True
      else bind_err (py_len successes) (\<lambda>n. Inr (n < 1)))"

text \<open>
  The elements of a list are changed in place, so the list stored under
  \<^verbatim>\<open>"successes"\<close> holds them as the loop left them.  A dictionary or a string yields
  strings, which nothing can change.
\<close>

fun written_back :: "json \<Rightarrow> json \<Rightarrow> json list \<Rightarrow> json" where
  "written_back (JObj kvs) (JArr xs) results' = JObj (dict_set kvs ''successes'' (JArr results'))"
| "written_back json_data successes results' = json_data"

text \<open>
  The function: \<open>Inr (None, d)\<close> is the return of \<^verbatim>\<open>(None, None, None)\<close> at line 116,
  \<open>Inr (Some (cards_df, protocols_df, results_df), d)\<close> the return at line 167; \<open>d\<close> is
  the argument \<^verbatim>\<open>json_data\<close> as the call leaves it.
\<close>

definition get_json_data_in_pandas ::
    "'dt pandas \<Rightarrow> json \<Rightarrow> py_error + ('dt frames option \<times> json)" where
  "get_json_data_in_pandas lib json_data =
     bind_err (getitem json_data ''successes'') (\<lambda>successes.
     bind_err (no_successes successes) (\<lambda>none.
     if none then Inr (None, json_data)
     else
       bind_err (py_iter successes) (\<lambda>results.
       bind_err (normalize_loop lib results ([], [], [])) (\<lambda>(dfs, results').
       Inr (Some dfs, written_back json_data successes results')))))"

section \<open>Export to object storage: \<^verbatim>\<open>write_csv_to_s3\<close>\<close>

text \<open>
  \<^verbatim>\<open>query_details\<close> is the dictionary that \<^verbatim>\<open>scrape_by_date_range\<close> builds: three
  strings.
\<close>

record query_details =
  qd_start_date :: string
  qd_end_date :: string
  qd_run_date :: string

text \<open>
  \<^verbatim>\<open>DataFrame.to_csv(buffer, index=False)\<close> for each of the three data frames is a
  parameter.
\<close>

record 'dt csv_writer =
  cards_to_csv :: "'dt card_row list \<Rightarrow> string"
  protocols_to_csv :: "protocol_row list \<Rightarrow> string"
  results_to_csv :: "result_row list \<Rightarrow> string"

text \<open>
  The storage service is seen through the requests sent to it, oldest first.  Whether it
  accepts a request is a parameter: \<^verbatim>\<open>put_object\<close> returns for a request that is
  accepted and raises for one that is not; the request has been sent in both cases.
\<close>

record put_request =
  Bucket :: string
  Key :: string
  Body :: string

definition put_object ::
    "(put_request \<Rightarrow> bool) \<Rightarrow> put_request \<Rightarrow> put_request list
       \<Rightarrow> (py_error + unit) \<times> put_request list" where
  "put_object accepts request sent =
     (if accepts request then Inr () else Inl ClientError, sent @ [request])"

definition csv_filename :: "string \<Rightarrow> query_details \<Rightarrow> string" where
  "csv_filename prefix query_details =
     prefix @ qd_start_date query_details @ ''_'' @ qd_end_date query_details @ ''_''
       @ qd_run_date query_details @ ''.csv''"

text \<open>
  Lines 184 to 212.  The result is the outcome of the call and the requests sent when it
  ends.  The directory made at line 183 and the log are left out.
\<close>

definition write_csv_to_s3 ::
    "'dt pandas \<Rightarrow> 'dt csv_writer \<Rightarrow> (put_request \<Rightarrow> bool) \<Rightarrow>
       json \<Rightarrow> query_details \<Rightarrow> string \<Rightarrow> string \<Rightarrow> string \<Rightarrow> put_request list
       \<Rightarrow> (py_error + unit) \<times> put_request list" where
  "write_csv_to_s3 lib csv accepts json_object query_details bucket key access_key sent =
     (let cards_filename = csv_filename ''trial_info_cards_'' query_details;
          protocols_filename = csv_filename ''trial_protocols_'' query_details;
          results_filename = csv_filename ''trial_results_'' query_details
      in case get_json_data_in_pandas lib json_object of
           Inl e \<Rightarrow> (Inl e, sent)
         | Inr (None, _) \<Rightarrow> (Inr (), sent)
         | Inr (Some (cards_df, protocols_df, results_df), _) \<Rightarrow>
             (case put_object accepts
                     \<lparr> Bucket = bucket, Key = key @ ''/'' @ cards_filename,
                       Body = cards_to_csv csv cards_df \<rparr> sent of
                (Inl e, sent1) \<Rightarrow> (Inl e, sent1)
              | (Inr _, sent1) \<Rightarrow>
             (case put_object accepts
                     \<lparr> Bucket = bucket, Key = key @ ''/'' @ protocols_filename,
                       Body = protocols_to_csv csv protocols_df \<rparr> sent1 of
                (Inl e, sent2) \<Rightarrow> (Inl e, sent2)
              | (Inr _, sent2) \<Rightarrow>
             put_object accepts
                     \<lparr> Bucket = bucket, Key = key @ ''/'' @ results_filename,
                       Body = results_to_csv csv results_df \<rparr> sent2)))"

section \<open>The daily runs: \<^verbatim>\<open>main.py\<close>\<close>

text \<open>
  A \<^verbatim>\<open>date\<close> is its proleptic Gregorian ordinal, from 1 (\<^verbatim>\<open>date.min\<close>) to 3652059
  (\<^verbatim>\<open>date.max\<close>); dates compare as their ordinals do, and adding a
  \<^verbatim>\<open>timedelta\<close> raises \<^verbatim>\<open>OverflowError\<close> outside that range.
\<close>

type_synonym date = int

definition max_ordinal :: int where
  "max_ordinal = 3652059"

definition date_add_days :: "date \<Rightarrow> int \<Rightarrow> py_error + date" where
  "date_add_days d n =
     (let ordinal = d + n
      in if 0 < ordinal \<and> ordinal \<le> max_ordinal then Inr ordinal else Inl OverflowError)"

text \<open>
  What \<^verbatim>\<open>main.py\<close> uses and does not define:
  \<^item> \<open>scrape_trials env start end\<close> is the result of
    \<^verbatim>\<open>EUClinicalTrialsScraper(start, end).scrape_trials()\<close>, of \<^verbatim>\<open>app/eu_scraper.py\<close>;
  \<^item> \<open>write_csv_to_disk env\<close> is what \<^verbatim>\<open>app.utils\<close> provides under the name
    \<^verbatim>\<open>write_csv_to_disk\<close>, which line 5 imports: \<open>None\<close> when it provides nothing
    under that name, as the \<^verbatim>\<open>app/utils.py\<close> at hand, which defines
    \<^verbatim>\<open>write_csv_to_s3\<close> and no \<^verbatim>\<open>write_csv_to_disk\<close>;
  \<^item> \<open>strptime env s\<close> is \<^verbatim>\<open>datetime.strptime(s, '%Y-%m-%d').date()\<close>, \<open>Inl e\<close> for
    its \<^verbatim>\<open>ValueError\<close>;
  \<^item> \<open>strftime env d\<close> is \<^verbatim>\<open>d.strftime("%Y-%m-%d")\<close>;
  \<^item> \<open>now env k\<close> is \<^verbatim>\<open>datetime.now().strftime("%Y-%m-%d-%H-%M-%S")\<close> at the
    \<open>k\<close>-th reading of the clock.
\<close>

record env =
  scrape_trials :: "date \<Rightarrow> date \<Rightarrow> py_error + json"
  write_csv_to_disk :: "(json \<Rightarrow> query_details \<Rightarrow> py_error + unit) option"
  strptime :: "string \<Rightarrow> py_error + date"
  strftime :: "date \<Rightarrow> string"
  now :: "nat \<Rightarrow> string"

text \<open>
  What a run does to the world outside, in order: \<open>Scraped start end\<close> when a scraper
  made for the range from \<open>start\<close> to \<open>end\<close> is run, \<open>Written output query_details\<close>
  when the writer is called with these arguments.
\<close>

datatype event =
    Scraped date date
  | Written json query_details

text \<open>
  \<^verbatim>\<open>EUClinicalTrialsScraper(start_date, end_date).scrape_trials()\<close>: its result, and
  in the trace the range that the scraper was given.
\<close>

definition run_scraper ::
    "env \<Rightarrow> date \<Rightarrow> date \<Rightarrow> event list \<Rightarrow> (py_error + json) \<times> event list" where
  "run_scraper env start_date end_date trace =
     (scrape_trials env start_date end_date, trace @ [Scraped start_date end_date])"

text \<open>The call of the writer: its result, and in the trace what it was given.\<close>

definition run_writer ::
    "(json \<Rightarrow> query_details \<Rightarrow> py_error + unit) \<Rightarrow> json \<Rightarrow> query_details \<Rightarrow> event list
       \<Rightarrow> (py_error + unit) \<times> event list" where
  "run_writer write output query_details trace =
     (write output query_details, trace @ [Written output query_details])"

text \<open>Lines 18 to 26: every \<^verbatim>\<open>ValueError\<close> becomes an \<^verbatim>\<open>ArgumentTypeError\<close>.\<close>

definition validate_dates :: "env \<Rightarrow> string \<Rightarrow> string \<Rightarrow> py_error + (date \<times> date)" where
  "validate_dates env start_date end_date =
     (case strptime env start_date of
        Inl e \<Rightarrow> Inl ArgumentTypeError
      | Inr start_date' \<Rightarrow>
          (case strptime env end_date of
             Inl e \<Rightarrow> Inl ArgumentTypeError
           | Inr end_date' \<Rightarrow>
               if start_date' > end_date' then Inl ArgumentTypeError
               else Inr (start_date', end_date')))"

text \<open>
  Lines 29 to 46.  \<open>k\<close> counts the readings of the clock so far; the function returns
  \<^verbatim>\<open>output\<close>, \<^verbatim>\<open>query_details\<close> and the new count, or the exception, and the trace.
\<close>

definition scrape_by_date_range ::
    "env \<Rightarrow> date \<Rightarrow> date \<Rightarrow> nat \<Rightarrow> event list
       \<Rightarrow> (py_error + (json \<times> query_details \<times> nat)) \<times> event list" where
  "scrape_by_date_range env start_date end_date k trace =
     (case run_scraper env start_date end_date trace of (scraped, trace') \<Rightarrow>
        (bind_err scraped (\<lambda>results.
         let query_start_date = JStr (strftime env start_date);
             query_end_date = JStr (strftime env end_date);
             run_start_datetime = JStr (now env k) in
         bind_err (getitem results ''errors'') (\<lambda>errors.
         bind_err (getitem results ''successes'') (\<lambda>successes.
         let output = JObj
               [(''metadata'', JObj [(''query_start_date'', query_start_date),
                                    (''query_end_date'', query_end_date),
                                    (''run_start_datetime'', run_start_datetime)]),
                (''errors'', errors),
                (''successes'', successes)];
             query_details =
               \<lparr> qd_start_date = strftime env start_date,
                 qd_end_date = strftime env end_date,
                 qd_run_date = now env (Suc k) \<rparr>
         in Inr (output, query_details, k + 2)))),
         trace'))"

text \<open>
  Lines 55 to 63: the loop of \<^verbatim>\<open>main\<close>, with the writer that the import gave.  The
  result is the exception that ended the loop, if one did, and the trace.
\<close>

function main_loop ::
    "env \<Rightarrow> (json \<Rightarrow> query_details \<Rightarrow> py_error + unit) \<Rightarrow> date \<Rightarrow> date \<Rightarrow> nat \<Rightarrow> event list
       \<Rightarrow> py_error option \<times> event list" where
  "main_loop env write current_date end_date k trace =
     (if current_date \<le> end_date then
        (case scrape_by_date_range env current_date current_date k trace of
           (Inl e, trace1) \<Rightarrow> (Some e, trace1)
         | (Inr (output, query_details, k'), trace1) \<Rightarrow>
             (case run_writer write output query_details trace1 of
                (Inl e, trace2) \<Rightarrow> (Some e, trace2)
              | (Inr _, trace2) \<Rightarrow>
                  (case date_add_days current_date 1 of
                     Inl e \<Rightarrow> (Some e, trace2)
                   | Inr next_date \<Rightarrow> main_loop env write next_date end_date k' trace2)))
      else (None, trace))"
  by pat_completeness auto
termination
  by (relation "measure (\<lambda>(env, write, current_date, end_date, k, trace).
                           nat (end_date + 1 - current_date))")
     (auto simp: date_add_days_def Let_def split: if_splits)

text \<open>Lines 49 to 63, after the arguments have been read.\<close>

definition main ::
    "env \<Rightarrow> (json \<Rightarrow> query_details \<Rightarrow> py_error + unit) \<Rightarrow> string \<Rightarrow> string
       \<Rightarrow> py_error option \<times> event list" where
  "main env write start_arg end_arg =
     (case validate_dates env start_arg end_arg of
        Inl e \<Rightarrow> (Some e, [])
      | Inr (start_date, end_date) \<Rightarrow> main_loop env write start_date end_date 0 [])"

text \<open>
  The program: the import of line 5 comes first and raises \<^verbatim>\<open>ImportError\<close> when
  \<^verbatim>\<open>app.utils\<close> has no \<^verbatim>\<open>write_csv_to_disk\<close>; \<^verbatim>\<open>main\<close> is called at line 67.
\<close>

definition program :: "env \<Rightarrow> string \<Rightarrow> string \<Rightarrow> py_error option \<times> event list" where
  "program env start_arg end_arg =
     (case write_csv_to_disk env of
        None \<Rightarrow> (Some ImportError, [])
      | Some write \<Rightarrow> main env write start_arg end_arg)"

section \<open>What the statements observe\<close>

text \<open>The data frames that a call returned; none when it raised or returned \<^verbatim>\<open>None\<close>.\<close>

definition frames_of :: "py_error + ('dt frames option \<times> json) \<Rightarrow> 'dt frames" where
  "frames_of r = (case r of Inr (Some dfs, _) \<Rightarrow> dfs | _ \<Rightarrow> ([], [], []))"

text \<open>
  The condition of line 137 for a trial, false when evaluating it raises; the value that
  line 138 reads; and a trial after the assignment of line 138 has stored \<open>v\<close>.
\<close>

definition title_truncated :: "json \<Rightarrow> bool" where
  "title_truncated result =
     (case bind_err (getitem result ''card'') (\<lambda>trial_info_card.
           bind_err (getitem trial_info_card ''full_title'') (\<lambda>full_title.
           py_endswith full_title ''...'')) of
        Inl e \<Rightarrow> False
      | Inr truncated \<Rightarrow> truncated)"

definition fallback_title :: "json \<Rightarrow> py_error + json" where
  "fallback_title result = bind_err (getitem result ''protocols'') first_protocol_full_title"

definition with_full_title :: "json \<Rightarrow> json \<Rightarrow> json" where
  "with_full_title result v =
     (case bind_err (getitem result ''card'') (\<lambda>trial_info_card.
           bind_err (setitem trial_info_card ''full_title'' v) (\<lambda>trial_info_card'.
           setitem result ''card'' trial_info_card')) of
        Inl e \<Rightarrow> result
      | Inr result' \<Rightarrow> result')"

text \<open>Every cell of the column \<^verbatim>\<open>full_title\<close> is a string.\<close>

fun is_str :: "json \<Rightarrow> bool" where
  "is_str (JStr s) = True"
| "is_str _ = False"

definition full_titles_are_str :: "'dt frames option \<Rightarrow> bool" where
  "full_titles_are_str out =
     (case out of
        None \<Rightarrow> True
      | Some (cards_df, protocols_df, results_df) \<Rightarrow> list_all (\<lambda>row. is_str (cr_full_title row)) cards_df)"

text \<open>
  The start date of a trial, as line 132 reads it; and two values of the library that
  answer the same for the start date of every trial of the argument.
\<close>

definition trial_start_date :: "json \<Rightarrow> py_error + json" where
  "trial_start_date result =
     bind_err (getitem result ''card'') (\<lambda>trial_info_card. getitem trial_info_card ''start_date'')"

definition same_dates :: "'dt pandas \<Rightarrow> 'dt pandas \<Rightarrow> json \<Rightarrow> bool" where
  "same_dates lib1 lib2 json_data =
     (isnull lib2 = isnull lib1
      \<and> (case bind_err (getitem json_data ''successes'') py_iter of
            Inl e \<Rightarrow> True
          | Inr trials \<Rightarrow>
              list_all (\<lambda>trial. case trial_start_date trial of
                                  Inl e \<Rightarrow> True
                                | Inr v \<Rightarrow> to_datetime lib2 v = to_datetime lib1 v) trials))"

text \<open>The three requests of lines 207, 209 and 211, in that order.\<close>

definition export_requests ::
    "'dt csv_writer \<Rightarrow> query_details \<Rightarrow> string \<Rightarrow> string \<Rightarrow> 'dt frames \<Rightarrow> put_request list" where
  "export_requests csv query_details bucket key dfs =
     (case dfs of (cards_df, protocols_df, results_df) \<Rightarrow>
        [\<lparr> Bucket = bucket, Key = key @ ''/'' @ csv_filename ''trial_info_cards_'' query_details,
           Body = cards_to_csv csv cards_df \<rparr>,
         \<lparr> Bucket = bucket, Key = key @ ''/'' @ csv_filename ''trial_protocols_'' query_details,
           Body = protocols_to_csv csv protocols_df \<rparr>,
         \<lparr> Bucket = bucket, Key = key @ ''/'' @ csv_filename ''trial_results_'' query_details,
           Body = results_to_csv csv results_df \<rparr>])"






section \<open>Sample values\<close>

text \<open>
  A pandas for the examples: a string is its own date, the empty string and everything
  that is not a string is \<^verbatim>\<open>NaT\<close>.
\<close>

definition sample_pandas :: "string pandas" where
  "sample_pandas =
     \<lparr> to_datetime = (\<lambda>v. case v of JStr s \<Rightarrow> Inr s | _ \<Rightarrow> Inr []),
       isnull = (\<lambda>d. Inr (d = [])) \<rparr>"

text \<open>A trial with two protocols, for a given title and given results.\<close>

definition sample_protocol :: "string \<Rightarrow> json" where
  "sample_protocol url =
     JObj [(''url'', JStr url),
           (''A. Protocol Information'',
              JObj [(''Full title of the trial'', JArr [JStr ''Study of X in adult patients''])])]"

definition sample_card :: "json \<Rightarrow> json" where
  "sample_card title =
     JObj [(''eudract_number'', JStr ''EU-CT-001''),
           (''start_date'', JStr ''2020-01-02''),
           (''sponsor_name'', JStr ''S''),
           (''full_title'', title),
           (''disease'', JObj [(''version'', JStr ''20.0''), (''soc_term'', JStr ''a''),
                               (''classification_code'', JStr ''1''), (''term'', JStr ''t''),
                               (''level'', JStr ''PT'')])]"

definition sample_trial :: "json \<Rightarrow> json \<Rightarrow> json" where
  "sample_trial title results =
     JObj [(''card'', sample_card title),
           (''protocols'', JArr [sample_protocol ''https://r.eu/trial/EU-CT-001/DE'',
                                 sample_protocol ''https://r.eu/trial/EU-CT-001/FR'']),
           (''results'', results)]"

definition sample_batch :: "json list \<Rightarrow> json" where
  "sample_batch trials = JObj [(''successes'', JArr trials)]"

text \<open>
  A pandas that reads the clock for the words \<^verbatim>\<open>now\<close> and \<^verbatim>\<open>today\<close>; a trial that
  started \<^verbatim>\<open>now\<close>; and a trial whose two protocols carry different titles.
\<close>

definition sample_pandas_at :: "string \<Rightarrow> string pandas" where
  "sample_pandas_at clock =
     \<lparr> to_datetime = (\<lambda>v. case v of
                             JStr s \<Rightarrow> Inr (if s = ''now'' \<or> s = ''today'' then clock else s)
                           | _ \<Rightarrow> Inr []),
       isnull = (\<lambda>d. Inr (d = [])) \<rparr>"

definition sample_trial_now :: json where
  "sample_trial_now =
     JObj [(''card'',
              JObj [(''eudract_number'', JStr ''EU-CT-002''),
                    (''start_date'', JStr ''now''),
                    (''sponsor_name'', JStr ''S''),
                    (''full_title'', JStr ''Study of Y''),
                    (''disease'', JObj [(''version'', JStr ''20.0''), (''soc_term'', JStr ''a''),
                                        (''classification_code'', JStr ''1''), (''term'', JStr ''t''),
                                        (''level'', JStr ''PT'')])]),
           (''protocols'', JArr [])]"

definition sample_trial_two_titles :: json where
  "sample_trial_two_titles =
     JObj [(''card'', sample_card (JStr ''Study of X...'')),
           (''protocols'',
              JArr [JObj [(''url'', JStr ''https://r.eu/trial/EU-CT-001/DE''),
                          (''A. Protocol Information'',
                             JObj [(''Full title of the trial'',
                                    JArr [JStr ''Study of X in adult patients'',
                                          JStr ''Studie X''])])],
                    JObj [(''url'', JStr ''https://r.eu/trial/EU-CT-001/FR''),
                          (''A. Protocol Information'',
                             JObj [(''Full title of the trial'',
                                    JArr [JStr ''Etude de X chez l adulte''])])]])]"

text \<open>A trial whose first protocol gives a number where the full title is expected.\<close>

definition sample_trial_numbered :: json where
  "sample_trial_numbered =
     JObj [(''card'', sample_card (JStr ''Study of X...'')),
           (''protocols'',
              JArr [JObj [(''url'', JStr ''https://r.eu/trial/EU-CT-001/DE''),
                          (''A. Protocol Information'',
                             JObj [(''Full title of the trial'', JArr [JInt 7])])]])]"

text \<open>Two versions of results; the first has no summary.\<close>

definition sample_results :: json where
  "sample_results =
     JObj [(''1'', JObj [(''x'', JNull)]),
           (''2'', JObj [(''summary'', JObj [(''url'', JStr ''u2'')])])]"

text \<open>A writer of CSV, the details of a query, and an environment that knows three days.\<close>

definition sample_csv_writer :: "string csv_writer" where
  "sample_csv_writer =
     \<lparr> cards_to_csv = (\<lambda>rows. ''cards''),
       protocols_to_csv = (\<lambda>rows. ''protocols''),
       results_to_csv = (\<lambda>rows. ''results'') \<rparr>"

definition sample_query_details :: query_details where
  "sample_query_details =
     \<lparr> qd_start_date = ''2024-01-01'', qd_end_date = ''2024-01-01'',
       qd_run_date = ''2024-02-01-00-00-00'' \<rparr>"



section \<open>Properties of the extractor\<close>

lemma extract_pages_acc:
  "extract_pages ps s ts =
     (s @ concat (map page_line ps), ts @ concat (map extract_tables ps))"
proof (induction ps arbitrary: s ts)
  case Nil
  show ?case by simp
next
  case (Cons p ps)
  show ?case
  proof (cases "extract_text p")
    case None
    then show ?thesis by (simp add: Cons.IH page_line_def)
  next
    case (Some t)
    then show ?thesis by (simp add: Cons.IH page_line_def)
  qed
qed

text \<open>
  Claim C8.  When the first member of the archive opens as a document, the function
  returns the texts of the pages that have one, each followed by a newline, in page
  order, and the tables of all pages in one list, page by page and in the order of each
  page.  For two pages, the first without text and without tables, the second with the
  text \<^verbatim>\<open>T\<close> and one table, the result is \<^verbatim>\<open>("T\n", [table])\<close>, whether the first
  page answers \<^verbatim>\<open>None\<close> or the empty string.
\<close>

theorem extract_text_and_tables_from_pdf_pages:
  "extract_text_and_tables_from_pdf (Zip ((pdf_name, Inr pages) # others)) =
     Inr (concat (map page_line pages), concat (map extract_tables pages))
   \<and> extract_text_and_tables_from_pdf
         (Zip [(pdf_name, Inr [\<lparr> extract_text = None, extract_tables = [] \<rparr>,
                               \<lparr> extract_text = Some ''T'', extract_tables = [tb] \<rparr>])]) =
       Inr (''T'' @ [CHR 0x0A], [tb])
   \<and> extract_text_and_tables_from_pdf
         (Zip [(pdf_name, Inr [\<lparr> extract_text = Some [], extract_tables = [] \<rparr>,
                               \<lparr> extract_text = Some ''T'', extract_tables = [tb] \<rparr>])]) =
       Inr (''T'' @ [CHR 0x0A], [tb])"
  by (simp add: extract_text_and_tables_from_pdf_def extract_pages_acc page_line_def)

text \<open>
  Claim C5.  The function raises, and returns nothing, exactly when the archive is
  malformed (\<^verbatim>\<open>BadZipFile\<close>), when it has no member (\<^verbatim>\<open>IndexError\<close> at
  \<^verbatim>\<open>namelist()[0]\<close>), or when its first member does not open as a document (the
  exception of the library).
\<close>

theorem extract_text_and_tables_from_pdf_fails:
  "extract_text_and_tables_from_pdf BadZip = Inl BadZipFile
   \<and> extract_text_and_tables_from_pdf (Zip []) = Inl IndexError
   \<and> extract_text_and_tables_from_pdf (Zip ((pdf_name, Inl e) # others)) = Inl e
   \<and> (isl (extract_text_and_tables_from_pdf a) \<longleftrightarrow>
        (a = BadZip \<or> a = Zip [] \<or> (\<exists>n e' ms. a = Zip ((n, Inl e') # ms))))"
proof -
  have "isl (extract_text_and_tables_from_pdf a) \<longleftrightarrow>
        (a = BadZip \<or> a = Zip [] \<or> (\<exists>n e' ms. a = Zip ((n, Inl e') # ms)))"
    by (auto simp: extract_text_and_tables_from_pdf_def
             split: archive.splits list.splits sum.splits prod.splits)
  then show ?thesis
    by (simp add: extract_text_and_tables_from_pdf_def)
qed

section \<open>Exceptions end the call\<close>

lemma bind_err_Inl [simp]: "bind_err (Inl e) f = Inl e"
  by (simp add: bind_err_def)

lemma bind_err_Inr [simp]: "bind_err (Inr v) f = f v"
  by (simp add: bind_err_def)

lemma bind_err_eq_Inr: "bind_err m f = Inr r \<longleftrightarrow> (\<exists>v. m = Inr v \<and> f v = Inr r)"
  by (cases m) simp_all

section \<open>The identifier of a protocol\<close>

lemma split_chr_not_Nil: "split_chr c s \<noteq> []"
  by (induction s) (auto split: list.splits)

lemma split_chr_no_sep: "c \<notin> set s \<Longrightarrow> split_chr c s = [s]"
  by (induction s) auto

lemma split_chr_append: "split_chr c (p @ c # s) = split_chr c p @ split_chr c s"
  by (induction p) (auto split: list.splits simp: split_chr_not_Nil)

lemma last_two_append: "last_two (xs @ [a, b]) = [a, b]"
  by (simp add: last_two_def)

lemma protocol_id_of_url_tail:
  assumes "CHR ''/'' \<notin> set a" and "CHR ''/'' \<notin> set b"
  shows "protocol_id_of_url (p @ CHR ''/'' # a @ CHR ''/'' # b) = a @ CHR ''-'' # b"
proof -
  have "split_chr CHR ''/'' (p @ CHR ''/'' # a @ CHR ''/'' # b) = split_chr CHR ''/'' p @ [a, b]"
    using assms by (simp add: split_chr_append split_chr_no_sep)
  then show ?thesis
    by (simp add: protocol_id_of_url_def last_two_append)
qed

lemma protocol_row_of_tail:
  assumes "getitem protocol ''url'' = Inr (JStr (p @ ''/'' @ a @ ''/'' @ b))"
    and "CHR ''/'' \<notin> set a" and "CHR ''/'' \<notin> set b"
  shows "protocol_row_of eudract_number protocol =
           Inr \<lparr> pr_protocol_id = a @ ''-'' @ b,
                 pr_eudract_number = eudract_number,
                 pr_url = JStr (p @ ''/'' @ a @ ''/'' @ b),
                 pr_json = json_dumps protocol \<rparr>"
proof -
  have "py_join ''-'' (last_two (split_chr CHR ''/'' (p @ ''/'' @ a @ ''/'' @ b))) = a @ ''-'' @ b"
    using protocol_id_of_url_tail [OF assms(2,3), of p] by (simp add: protocol_id_of_url_def)
  with assms(1) show ?thesis
    by (simp add: protocol_row_of_def Let_def del: json_dumps.simps)
qed

lemma protocol_rows_tails:
  assumes "CHR ''/'' \<notin> set a"
    and "list_all2 (\<lambda>protocol (p, b). CHR ''/'' \<notin> set b
            \<and> getitem protocol ''url'' = Inr (JStr (p @ ''/'' @ a @ ''/'' @ b))) protocols tails"
  shows "\<exists>rows. protocol_rows eudract_number protocols = Inr rows
           \<and> map pr_protocol_id rows = map (\<lambda>(p, b). a @ ''-'' @ b) tails"
  using assms(2)
proof (induction protocols tails rule: list_all2_induct)
  case Nil
  then show ?case by simp
next
  case (Cons protocol protocols' t' tails')
  obtain p b where t: "t' = (p, b)" by (cases t')
  with Cons.hyps(1) have "CHR ''/'' \<notin> set b"
    and "getitem protocol ''url'' = Inr (JStr (p @ ''/'' @ a @ ''/'' @ b))"
    by simp_all
  from protocol_row_of_tail [OF this(2) assms(1) this(1), of eudract_number] Cons.IH t
  show ?case by (auto simp del: json_dumps.simps)
qed

text \<open>
  Claim C7.  For the protocols of a trial whose URLs end in the segment of the trial and
  the segment of the document, the loop over the protocols gives each row the identifier
  made of these two segments joined by a hyphen, whatever comes before them in the URL; so
  URLs that end in \<^verbatim>\<open>/EU-CT-001/DE\<close> and \<^verbatim>\<open>/EU-CT-001/FR\<close> get \<^verbatim>\<open>EU-CT-001-DE\<close>
  and \<^verbatim>\<open>EU-CT-001-FR\<close>; and when the documents of the protocols differ from one
  another, so do the identifiers.
\<close>

theorem protocol_id_rule:
  assumes "CHR ''/'' \<notin> set trial"
    and "list_all2 (\<lambda>protocol (p, document). CHR ''/'' \<notin> set document
            \<and> getitem protocol ''url'' = Inr (JStr (p @ ''/'' @ trial @ ''/'' @ document)))
           protocols tails"
  shows "\<exists>rows. protocol_rows eudract_number protocols = Inr rows
           \<and> map pr_protocol_id rows = map (\<lambda>(p, document). trial @ ''-'' @ document) tails
           \<and> (distinct (map snd tails) \<longrightarrow> distinct (map pr_protocol_id rows))"
proof -
  from protocol_rows_tails [OF assms, of eudract_number] obtain rows where
    r: "protocol_rows eudract_number protocols = Inr rows"
    and ids: "map pr_protocol_id rows = map (\<lambda>(p, document). trial @ ''-'' @ document) tails"
    by blast
  have ids': "map pr_protocol_id rows = map (\<lambda>document. trial @ ''-'' @ document) (map snd tails)"
    using ids by (simp add: case_prod_unfold)
  have inj: "inj_on (\<lambda>document. trial @ ''-'' @ document) (set (map snd tails))"
    by (simp add: inj_on_def)
  have "distinct (map snd tails) \<longrightarrow> distinct (map pr_protocol_id rows)"
    unfolding ids' distinct_map [of "\<lambda>document. trial @ ''-'' @ document" "map snd tails"]
    using inj by blast
  with r ids show ?thesis by blast
qed

theorem protocol_id_rule_witness:
  "map_sum id (map pr_protocol_id)
     (protocol_rows (JStr ''EU-CT-001'')
        [sample_protocol ''https://www.clinicaltrialsregister.eu/ctr-search/trial/EU-CT-001/DE'',
         sample_protocol ''https://www.clinicaltrialsregister.eu/ctr-search/trial/EU-CT-001/FR'']) =
     Inr [''EU-CT-001-DE'', ''EU-CT-001-FR'']"
proof -
  let ?p = "''https://www.clinicaltrialsregister.eu/ctr-search/trial''"
  have "list_all2 (\<lambda>protocol (p, document). CHR ''/'' \<notin> set document
            \<and> getitem protocol ''url'' = Inr (JStr (p @ ''/'' @ ''EU-CT-001'' @ ''/'' @ document)))
          [sample_protocol ''https://www.clinicaltrialsregister.eu/ctr-search/trial/EU-CT-001/DE'',
           sample_protocol ''https://www.clinicaltrialsregister.eu/ctr-search/trial/EU-CT-001/FR'']
          [(?p, ''DE''), (?p, ''FR'')]"
    by (simp add: sample_protocol_def)
  from protocol_id_rule [OF _ this, of "JStr ''EU-CT-001''"] show ?thesis
    by auto
qed

text \<open>
  The claim is about protocols that share a trial.  When the segments of the trial differ,
  a hyphen inside a segment cannot be told from the hyphen that joins the two, and two
  URLs may get one identifier.
\<close>

lemma protocol_id_collision:
  "protocol_id_of_url ''https://r.eu/trial/EU-CT/001-DE'' =
     protocol_id_of_url ''https://r.eu/trial/EU-CT-001/DE''
   \<and> last_two (split_chr CHR ''/'' ''https://r.eu/trial/EU-CT/001-DE'') \<noteq>
       last_two (split_chr CHR ''/'' ''https://r.eu/trial/EU-CT-001/DE'')"
  by (simp add: protocol_id_of_url_def last_two_def)

section \<open>Dictionaries\<close>

lemma getitem_eq_Inr: "getitem j k = Inr v \<longleftrightarrow> (\<exists>kvs. j = JObj kvs \<and> map_of kvs k = Some v)"
  by (cases j) (auto split: option.splits)

lemma map_of_dict_set: "map_of (dict_set kvs k v) k' = (if k' = k then Some v else map_of kvs k')"
  by (induction kvs) auto

lemma dict_set_twice: "dict_set (dict_set kvs k v) k v' = dict_set kvs k v'"
  by (induction kvs) auto

lemma keys_dict_set: "set (map fst (dict_set kvs k v)) = insert k (set (map fst kvs))"
  by (induction kvs k v rule: dict_set.induct) auto

lemma dict_set_not_Nil: "dict_set kvs k v \<noteq> []"
  by (induction kvs k v rule: dict_set.induct) auto

lemma py_endswith_eq_Inr: "py_endswith v suffix = Inr b \<longleftrightarrow> (\<exists>s. v = JStr s \<and> b = endswith s suffix)"
  by (cases v) auto

lemma setitem_eq_Inr: "setitem j k v = Inr j' \<longleftrightarrow> (\<exists>kvs. j = JObj kvs \<and> j' = JObj (dict_set kvs k v))"
  by (cases j) auto

lemma py_items_eq_Inr: "py_items v = Inr items \<longleftrightarrow> v = JObj items"
  by (cases v) auto

lemma is_str_iff: "is_str v \<longleftrightarrow> (\<exists>s. v = JStr s)"
  by (cases v) auto

section \<open>The body of the loop\<close>

lemma full_title_fallback_Inr:
  assumes "full_title_fallback result crd protocols = Inr (result', crd')"
  obtains t where "getitem crd ''full_title'' = Inr (JStr t)" and "\<not> endswith t ''...''"
      and "result' = result" and "crd' = crd"
  | t v where "getitem crd ''full_title'' = Inr (JStr t)" and "endswith t ''...''"
      and "first_protocol_full_title protocols = Inr v"
      and "setitem crd ''full_title'' v = Inr crd'"
      and "setitem result ''card'' crd' = Inr result'"
  using assms unfolding full_title_fallback_def
  by (auto simp: bind_err_eq_Inr py_endswith_eq_Inr split: if_splits)

lemma new_card_info_row_Inr:
  assumes "new_card_info_row eud sd crd disease result = Inr row"
  shows "cr_json row = json_dumps result"
    and "getitem crd ''full_title'' = Inr (cr_full_title row)"
    and "cr_eudract_number row = eud"
  using assms unfolding new_card_info_row_def
  by (auto simp: bind_err_eq_Inr simp del: json_dumps.simps)

lemma process_trial_Inr:
  assumes "process_trial lib result = Inr (card_row, prows, rrows, result')"
  obtains crd disease eud sd dt protocols null crd' plist where
    "getitem result ''card'' = Inr crd"
    "getitem crd ''disease'' = Inr disease"
    "getitem crd ''eudract_number'' = Inr eud"
    "getitem crd ''start_date'' = Inr sd"
    "to_datetime lib sd = Inr dt"
    "getitem result ''protocols'' = Inr protocols"
    "isnull lib dt = Inr null"
    "full_title_fallback result crd protocols = Inr (result', crd')"
    "new_card_info_row eud (if null then None else Some dt) crd' disease result' = Inr card_row"
    "py_iter protocols = Inr plist"
    "protocol_rows eud plist = Inr prows"
    "result_rows eud result' = Inr rrows"
  using assms unfolding process_trial_def
  by (auto simp: bind_err_eq_Inr Let_def split: prod.splits)

lemma process_trial_result_truthy:
  assumes "process_trial lib result = Inr (card_row, prows, rrows, result')"
  shows "truthy result'"
proof -
  from assms obtain crd protocols crd' where
    c: "getitem result ''card'' = Inr crd"
    and f: "full_title_fallback result crd protocols = Inr (result', crd')"
    by (rule process_trial_Inr)
  from c obtain kvs where r: "result = JObj kvs" and "map_of kvs ''card'' = Some crd"
    by (auto simp: getitem_eq_Inr)
  then have ne: "kvs \<noteq> []" by auto
  from f show ?thesis
  proof (cases rule: full_title_fallback_Inr)
    case (1 t)
    with r ne show ?thesis by simp
  next
    case (2 t v)
    with r show ?thesis by (auto simp: dict_set_not_Nil)
  qed
qed

lemma process_trial_card:
  assumes "process_trial lib result = Inr (card_row, prows, rrows, result')"
  shows "cr_json card_row = json_dumps result'"
    and "result' = (if title_truncated result then with_full_title result (cr_full_title card_row) else result)"
    and "title_truncated result \<longrightarrow> fallback_title result = Inr (cr_full_title card_row)"
    and "getitem result' ''results'' = getitem result ''results''"
    and "py_contains result' ''results'' = py_contains result ''results''"
proof -
  from assms obtain crd disease eud sd dt protocols null crd' where
    c: "getitem result ''card'' = Inr crd"
    and p: "getitem result ''protocols'' = Inr protocols"
    and f: "full_title_fallback result crd protocols = Inr (result', crd')"
    and n: "new_card_info_row eud (if null then None else Some dt) crd' disease result' = Inr card_row"
    by (rule process_trial_Inr)
  from n show "cr_json card_row = json_dumps result'"
    by (rule new_card_info_row_Inr)
  from n have t': "getitem crd' ''full_title'' = Inr (cr_full_title card_row)"
    by (rule new_card_info_row_Inr)
  from f have "result' = (if title_truncated result then with_full_title result (cr_full_title card_row) else result)
     \<and> (title_truncated result \<longrightarrow> fallback_title result = Inr (cr_full_title card_row))
     \<and> getitem result' ''results'' = getitem result ''results''
     \<and> py_contains result' ''results'' = py_contains result ''results''"
  proof (cases rule: full_title_fallback_Inr)
    case (1 t)
    with c show ?thesis by (simp add: title_truncated_def)
  next
    case (2 t v)
    from 2(4) obtain ckvs where ck: "crd = JObj ckvs" "crd' = JObj (dict_set ckvs ''full_title'' v)"
      by (auto simp: setitem_eq_Inr)
    with t' have v: "cr_full_title card_row = v" by (simp add: map_of_dict_set)
    from 2(5) obtain kvs where k: "result = JObj kvs" "result' = JObj (dict_set kvs ''card'' crd')"
      by (auto simp: setitem_eq_Inr)
    from c 2 have tt: "title_truncated result" by (simp add: title_truncated_def)
    from c 2 v have "with_full_title result (cr_full_title card_row) = result'"
      by (simp add: with_full_title_def)
    moreover from p 2 v have "fallback_title result = Inr (cr_full_title card_row)"
      by (simp add: fallback_title_def)
    moreover from k have "getitem result' ''results'' = getitem result ''results''"
      by (simp add: map_of_dict_set)
    moreover from k c have "py_contains result' ''results'' = py_contains result ''results''"
      by (auto simp: keys_dict_set getitem_eq_Inr simp del: set_map dest: map_of_SomeD)
    ultimately show ?thesis using tt by simp
  qed
  then show "result' = (if title_truncated result then with_full_title result (cr_full_title card_row) else result)"
    and "title_truncated result \<longrightarrow> fallback_title result = Inr (cr_full_title card_row)"
    and "getitem result' ''results'' = getitem result ''results''"
    and "py_contains result' ''results'' = py_contains result ''results''"
    by blast+
qed

lemma process_trial_again:
  assumes "process_trial lib result = Inr (card_row, prows, rrows, result')"
    and "is_str (cr_full_title card_row)"
  shows "process_trial lib result' = Inr (card_row, prows, rrows, result')"
proof -
  from assms(1) obtain crd disease eud sd dt protocols null crd' plist where
    c: "getitem result ''card'' = Inr crd"
    and facts: "getitem crd ''disease'' = Inr disease"
      "getitem crd ''eudract_number'' = Inr eud"
      "getitem crd ''start_date'' = Inr sd"
      "to_datetime lib sd = Inr dt"
      "isnull lib dt = Inr null"
    and p: "getitem result ''protocols'' = Inr protocols"
    and f: "full_title_fallback result crd protocols = Inr (result', crd')"
    and rest: "new_card_info_row eud (if null then None else Some dt) crd' disease result' = Inr card_row"
      "py_iter protocols = Inr plist"
      "protocol_rows eud plist = Inr prows"
      "result_rows eud result' = Inr rrows"
    by (rule process_trial_Inr)
  from rest(1) have t': "getitem crd' ''full_title'' = Inr (cr_full_title card_row)"
    by (rule new_card_info_row_Inr)
  from f show ?thesis
  proof (cases rule: full_title_fallback_Inr)
    case (1 t)
    with assms(1) show ?thesis by simp
  next
    case (2 t v)
    from 2(4) obtain ckvs where ck: "crd = JObj ckvs" "crd' = JObj (dict_set ckvs ''full_title'' v)"
      by (auto simp: setitem_eq_Inr)
    from 2(5) obtain kvs where k: "result = JObj kvs" "result' = JObj (dict_set kvs ''card'' crd')"
      by (auto simp: setitem_eq_Inr)
    from t' ck have v: "cr_full_title card_row = v" by (simp add: map_of_dict_set)
    with assms(2) obtain w where w: "v = JStr w" by (auto simp: is_str_iff)
    have c': "getitem result' ''card'' = Inr crd'"
      using k by (simp add: map_of_dict_set)
    have p': "getitem result' ''protocols'' = Inr protocols"
      using k p by (simp add: map_of_dict_set)
    have facts': "getitem crd' ''disease'' = Inr disease"
      "getitem crd' ''eudract_number'' = Inr eud"
      "getitem crd' ''start_date'' = Inr sd"
      using ck facts by (simp_all add: map_of_dict_set)
    have "setitem crd' ''full_title'' v = Inr crd'"
      using ck by (simp add: dict_set_twice)
    moreover have "setitem result' ''card'' crd' = Inr result'"
      using k by (simp add: dict_set_twice)
    moreover have "getitem crd' ''full_title'' = Inr (JStr w)"
      using t' v w by simp
    ultimately have f': "full_title_fallback result' crd' protocols = Inr (result', crd')"
      using 2(3) w by (simp add: full_title_fallback_def)
    show ?thesis
      unfolding process_trial_def
      by (simp add: c' p' facts' facts f' rest)
  qed
qed

lemma result_rows_loop_Inr:
  assumes "result_rows_loop eud items = Inr rows" and "(version, payload) \<in> set items"
  shows "\<not> isl (summary_url payload)"
  using assms
proof (induction items arbitrary: rows)
  case Nil
  then show ?case by simp
next
  case (Cons item items)
  obtain ver v where item: "item = (ver, v)" by (cases item)
  with Cons.prems(1) obtain row rest where
    "result_row_of eud ver v = Inr row" and r: "result_rows_loop eud items = Inr rest"
    by (auto simp: bind_err_eq_Inr)
  then have "\<not> isl (summary_url v)"
    by (auto simp: result_row_of_def bind_err_eq_Inr)
  with Cons.IH [OF r] Cons.prems(2) item show ?case by auto
qed

lemma result_rows_Inr:
  assumes "result_rows eud result = Inr rows"
    and "getitem result ''results'' = Inr results"
    and "py_items results = Inr items"
    and "(version, payload) \<in> set items"
  shows "\<not> isl (summary_url payload)"
proof -
  from assms(2) obtain kvs where k: "result = JObj kvs" "map_of kvs ''results'' = Some results"
    by (auto simp: getitem_eq_Inr)
  then have "py_contains result ''results'' = Inr True"
    by (force dest: map_of_SomeD simp: image_iff)
  moreover from assms(3,4) have "truthy results"
    by (auto simp: py_items_eq_Inr)
  ultimately have "result_rows_loop eud items = Inr rows"
    using assms(1,2,3) by (simp add: result_rows_def)
  then show ?thesis using assms(4) by (rule result_rows_loop_Inr)
qed

section \<open>The loop and the function\<close>

lemma normalize_loop_results:
  assumes "normalize_loop lib rs dfs = Inr (dfs', rs')"
  shows "list_all2 (\<lambda>r r'. if truthy r
                            then truthy r' \<and> (\<exists>cr ps xs. process_trial lib r = Inr (cr, ps, xs, r'))
                            else r' = r) rs rs'"
  using assms
proof (induction rs arbitrary: dfs dfs' rs')
  case Nil
  then show ?case by simp
next
  case (Cons r rs)
  show ?case
  proof (cases "truthy r")
    case False
    with Cons.prems obtain rest' where
      "normalize_loop lib rs dfs = Inr (dfs', rest')" and "rs' = r # rest'"
      by (auto simp: bind_err_eq_Inr)
    with Cons.IH False show ?thesis by auto
  next
    case True
    with Cons.prems obtain cr ps xs r' rest' where
      p: "process_trial lib r = Inr (cr, ps, xs, r')"
      and "normalize_loop lib rs (fst dfs @ [cr], fst (snd dfs) @ ps, snd (snd dfs) @ xs)
             = Inr (dfs', rest')"
      and "rs' = r' # rest'"
      by (auto simp: bind_err_eq_Inr)
    with Cons.IH True process_trial_result_truthy [OF p] show ?thesis by auto
  qed
qed

lemma normalize_loop_frames:
  assumes "normalize_loop lib rs dfs = Inr (dfs', rs')"
  shows "\<exists>outs. map (process_trial lib) (filter truthy rs) = map Inr outs
           \<and> filter truthy rs' = map (\<lambda>out. snd (snd (snd out))) outs
           \<and> fst dfs' = fst dfs @ map fst outs
           \<and> fst (snd dfs') = fst (snd dfs) @ concat (map (\<lambda>out. fst (snd out)) outs)
           \<and> snd (snd dfs') = snd (snd dfs) @ concat (map (\<lambda>out. fst (snd (snd out))) outs)"
  using assms
proof (induction rs arbitrary: dfs dfs' rs')
  case Nil
  then show ?case by simp
next
  case (Cons r rs)
  show ?case
  proof (cases "truthy r")
    case False
    with Cons.prems obtain rest' where
      "normalize_loop lib rs dfs = Inr (dfs', rest')" and "rs' = r # rest'"
      by (auto simp: bind_err_eq_Inr)
    with Cons.IH [of dfs dfs' rest'] False show ?thesis by auto
  next
    case True
    with Cons.prems obtain cr ps xs r' rest' where
      p: "process_trial lib r = Inr (cr, ps, xs, r')"
      and n: "normalize_loop lib rs (fst dfs @ [cr], fst (snd dfs) @ ps, snd (snd dfs) @ xs)
             = Inr (dfs', rest')"
      and rs': "rs' = r' # rest'"
      by (auto simp: bind_err_eq_Inr)
    from Cons.IH [OF n] obtain outs where
      o: "map (process_trial lib) (filter truthy rs) = map Inr outs"
        "filter truthy rest' = map (\<lambda>out. snd (snd (snd out))) outs"
        "fst dfs' = (fst dfs @ [cr]) @ map fst outs"
        "fst (snd dfs') = (fst (snd dfs) @ ps) @ concat (map (\<lambda>out. fst (snd out)) outs)"
        "snd (snd dfs') = (snd (snd dfs) @ xs) @ concat (map (\<lambda>out. fst (snd (snd out))) outs)"
      by auto
    have "truthy r'" using p by (rule process_trial_result_truthy)
    with o p True rs' show ?thesis
      by (intro exI [of _ "(cr, ps, xs, r') # outs"]) simp
  qed
qed

lemma normalize_loop_cards:
  assumes "normalize_loop lib rs ([], [], []) = Inr (dfs', rs')"
  shows "list_all2 (\<lambda>r cr. \<exists>ps xs r'. process_trial lib r = Inr (cr, ps, xs, r')) (filter truthy rs) (fst dfs')"
proof -
  from normalize_loop_frames [OF assms] obtain outs where
    o: "map (process_trial lib) (filter truthy rs) = map Inr outs" and d: "fst dfs' = map fst outs"
    by auto
  from o have "list_all2 (\<lambda>r out. process_trial lib r = Inr out) (filter truthy rs) outs"
    by (simp add: list_all2_conv_all_nth list_eq_iff_nth_eq)
  then have "list_all2 (\<lambda>r out. \<exists>ps xs r'. process_trial lib r = Inr (fst out, ps, xs, r')) (filter truthy rs) outs"
    by (rule list_all2_mono) (metis prod.collapse)
  with d show ?thesis by (simp add: list_all2_map2)
qed

lemma normalize_loop_each:
  assumes "normalize_loop lib rs dfs = Inr (dfs', rs')" and "r \<in> set rs" and "truthy r"
  shows "\<exists>cr ps xs r'. process_trial lib r = Inr (cr, ps, xs, r')"
proof -
  from normalize_loop_results [OF assms(1)] assms(2) obtain r' where
    "if truthy r then truthy r' \<and> (\<exists>cr ps xs. process_trial lib r = Inr (cr, ps, xs, r')) else r' = r"
    by (auto simp: list_all2_conv_all_nth in_set_conv_nth)
  with assms(3) show ?thesis by auto
qed

lemma normalize_loop_again:
  assumes "normalize_loop lib rs dfs = Inr (dfs', rs')"
    and "list_all (\<lambda>row. is_str (cr_full_title row)) (fst dfs')"
  shows "normalize_loop lib rs' dfs = Inr (dfs', rs')"
  using assms
proof (induction rs arbitrary: dfs rs')
  case Nil
  then show ?case by simp
next
  case (Cons r rs)
  show ?case
  proof (cases "truthy r")
    case False
    with Cons.prems(1) obtain rest' where
      n: "normalize_loop lib rs dfs = Inr (dfs', rest')" and rs': "rs' = r # rest'"
      by (auto simp: bind_err_eq_Inr)
    from Cons.IH [OF n Cons.prems(2)] False rs' show ?thesis by simp
  next
    case True
    with Cons.prems(1) obtain cr ps xs r' rest' where
      p: "process_trial lib r = Inr (cr, ps, xs, r')"
      and n: "normalize_loop lib rs (fst dfs @ [cr], fst (snd dfs) @ ps, snd (snd dfs) @ xs)
             = Inr (dfs', rest')"
      and rs': "rs' = r' # rest'"
      by (auto simp: bind_err_eq_Inr)
    from normalize_loop_frames [OF n] have "cr \<in> set (fst dfs')" by auto
    with Cons.prems(2) have "is_str (cr_full_title cr)" by (simp add: list_all_iff)
    with p have p': "process_trial lib r' = Inr (cr, ps, xs, r')"
      by (rule process_trial_again)
    have "truthy r'" using p by (rule process_trial_result_truthy)
    with p' Cons.IH [OF n Cons.prems(2)] rs' show ?thesis by simp
  qed
qed

lemma py_iter_truthy:
  assumes "py_iter successes = Inr rs" and "rs \<noteq> []"
  shows "no_successes successes = Inr False"
  using assms by (cases successes) (auto simp: no_successes_def)

lemma get_json_data_in_pandas_Some:
  assumes "get_json_data_in_pandas lib json_data = Inr (Some dfs, json_data')"
  obtains successes rs rs' where
    "getitem json_data ''successes'' = Inr successes"
    "py_iter successes = Inr rs"
    "normalize_loop lib rs ([], [], []) = Inr (dfs, rs')"
    "json_data' = written_back json_data successes rs'"
  using assms unfolding get_json_data_in_pandas_def
  by (auto simp: bind_err_eq_Inr split: if_splits)

lemma get_json_data_in_pandas_Inr:
  assumes "get_json_data_in_pandas lib json_data = Inr (out, json_data')"
  obtains successes where "getitem json_data ''successes'' = Inr successes"
      and "no_successes successes = Inr True" and "out = None" and "json_data' = json_data"
  | successes rs dfs rs' where "getitem json_data ''successes'' = Inr successes"
      and "no_successes successes = Inr False"
      and "py_iter successes = Inr rs"
      and "normalize_loop lib rs ([], [], []) = Inr (dfs, rs')"
      and "out = Some dfs"
      and "json_data' = written_back json_data successes rs'"
  using assms unfolding get_json_data_in_pandas_def
  by (auto simp: bind_err_eq_Inr split: if_splits)

section \<open>Properties of the normalizer\<close>

lemmas normalizer_defs =
  get_json_data_in_pandas_def no_successes_def process_trial_def full_title_fallback_def
  first_protocol_full_title_def new_card_info_row_def protocol_row_of_def result_rows_def
  result_row_of_def summary_url_def py_index_def endswith_def last_two_def
  title_truncated_def fallback_title_def with_full_title_def frames_of_def

lemmas sample_defs =
  sample_pandas_def sample_protocol_def sample_card_def sample_trial_def sample_batch_def

text \<open>
  Claim C1, as first stated, fails: for an empty list of successes the function returns
  \<^verbatim>\<open>(None, None, None)\<close>, which is not the triple of three empty data frames.
\<close>

theorem empty_successes_not_empty_frames:
  "map_sum id fst (get_json_data_in_pandas sample_pandas (JObj [(''successes'', JArr [])]))
     \<noteq> Inr (Some ([], [], []))"
  by (simp add: get_json_data_in_pandas_def no_successes_def)

text \<open>
  Claim C1, amended.  When the value under \<^verbatim>\<open>successes\<close> is empty, the function
  returns \<^verbatim>\<open>(None, None, None)\<close>: no data frame at all, no exception, and the argument
  as it was.
\<close>

theorem empty_successes_returns_none:
  assumes "getitem json_data ''successes'' = Inr successes" and "\<not> truthy successes"
  shows "get_json_data_in_pandas lib json_data = Inr (None, json_data)"
  using assms by (simp add: get_json_data_in_pandas_def no_successes_def)

theorem empty_successes_returns_none_witness:
  "get_json_data_in_pandas sample_pandas (JObj [(''successes'', JArr [])]) =
     Inr (None, JObj [(''successes'', JArr [])])"
  using empty_successes_returns_none
    [of "JObj [(''successes'', JArr [])]" "JArr []" sample_pandas]
  by simp

text \<open>
  Claim C2, as first stated, fails: when the title of a trial ends in \<^verbatim>\<open>...\<close>, line 138
  writes the full title into the trial before line 150 serializes it, so the column
  \<^verbatim>\<open>json\<close> of the card holds the changed trial and not the one that was received.
\<close>

theorem audit_json_column_not_verbatim:
  "map cr_json
     (fst (frames_of (get_json_data_in_pandas sample_pandas
        (sample_batch [sample_trial (JStr ''Study of X...'') (JObj [])])))) =
     [json_dumps (sample_trial (JStr ''Study of X in adult patients'') (JObj []))]
   \<and> json_dumps (sample_trial (JStr ''Study of X in adult patients'') (JObj [])) \<noteq>
       json_dumps (sample_trial (JStr ''Study of X...'') (JObj []))"
  by (simp add: normalizer_defs sample_defs encode_basestring_ascii_def escape_char_def)

text \<open>
  Claim C2, amended.  When the function returns data frames, the column \<^verbatim>\<open>json\<close> of
  the card of each trial that is not skipped is the serialization of the trial as it was
  received if its title does not end in \<^verbatim>\<open>...\<close>, and otherwise of the trial with the
  title of its card replaced by the full title, the one in the column \<^verbatim>\<open>full_title\<close>.
\<close>

theorem audit_json_column:
  assumes "get_json_data_in_pandas lib json_data =
             Inr (Some (cards_df, protocols_df, results_df), json_data')"
    and "getitem json_data ''successes'' = Inr successes"
    and "py_iter successes = Inr trials"
  shows "list_all2 (\<lambda>trial row. cr_json row =
                       json_dumps (if title_truncated trial
                                   then with_full_title trial (cr_full_title row)
                                   else trial))
           (filter truthy trials) cards_df"
proof -
  from assms(1) obtain successes' rs rs' where
    "getitem json_data ''successes'' = Inr successes'" "py_iter successes' = Inr rs"
    and n: "normalize_loop lib rs ([], [], []) = Inr ((cards_df, protocols_df, results_df), rs')"
    by (rule get_json_data_in_pandas_Some)
  with assms(2,3) have "rs = trials" by simp
  with normalize_loop_cards [OF n] have
    "list_all2 (\<lambda>r cr. \<exists>ps xs r'. process_trial lib r = Inr (cr, ps, xs, r'))
       (filter truthy trials) cards_df"
    by simp
  then show ?thesis
  proof (rule list_all2_mono)
    fix r cr
    assume "\<exists>ps xs r'. process_trial lib r = Inr (cr, ps, xs, r')"
    then obtain ps xs r' where p: "process_trial lib r = Inr (cr, ps, xs, r')" by blast
    from process_trial_card(1) [OF p] process_trial_card(2) [OF p]
    show "cr_json cr = json_dumps (if title_truncated r
                                   then with_full_title r (cr_full_title cr) else r)"
      by simp
  qed
qed

theorem audit_json_column_witness:
  "map cr_json
     (fst (frames_of (get_json_data_in_pandas sample_pandas
        (sample_batch [sample_trial (JStr ''Study of Y'') (JObj [])])))) =
     [json_dumps (sample_trial (JStr ''Study of Y'') (JObj []))]"
proof -
  let ?trial = "sample_trial (JStr ''Study of Y'') (JObj [])"
  obtain cards ps xs d' where
    r: "get_json_data_in_pandas sample_pandas (sample_batch [?trial]) = Inr (Some (cards, ps, xs), d')"
    by (simp add: normalizer_defs sample_defs del: json_dumps.simps)
  have "list_all2 (\<lambda>trial row. cr_json row =
                       json_dumps (if title_truncated trial
                                   then with_full_title trial (cr_full_title row)
                                   else trial))
           (filter truthy [?trial]) cards"
    using audit_json_column [OF r, of "JArr [?trial]" "[?trial]"]
    by (simp add: sample_batch_def)
  moreover have "truthy ?trial" "\<not> title_truncated ?trial"
    by (simp_all add: normalizer_defs sample_defs)
  ultimately have "map cr_json cards = [json_dumps ?trial]"
    by (auto simp: list_all2_Cons1 simp del: json_dumps.simps)
  with r show ?thesis by (simp add: frames_of_def del: json_dumps.simps)
qed

text \<open>
  Claim C3, as first stated, fails: a version without a summary raises \<^verbatim>\<open>KeyError\<close> at
  line 165 and nothing catches it, so the call ends there: no row for the other version,
  none for the other trial, no data frame at all.
\<close>

theorem missing_summary_url_aborts_batch:
  "get_json_data_in_pandas sample_pandas
     (sample_batch [sample_trial (JStr ''Study of Y'') sample_results,
                    sample_trial (JStr ''Study of Z'') (JObj [])]) = Inl KeyError"
  by (simp add: normalizer_defs sample_defs sample_results_def del: json_dumps.simps)

text \<open>
  Claim C3, amended.  If the results of any trial that is not skipped hold a version whose
  payload has no summary URL (evaluating \<^verbatim>\<open>value['summary']['url']\<close> raises), then the
  whole call raises and returns no data frame: the failure is not confined to that
  version, and the other versions and trials get no rows.
\<close>

theorem missing_summary_url_raises:
  assumes "getitem json_data ''successes'' = Inr successes"
    and "py_iter successes = Inr trials"
    and "trial \<in> set trials" and "truthy trial"
    and "getitem trial ''results'' = Inr results"
    and "py_items results = Inr items"
    and "(version, payload) \<in> set items"
    and "isl (summary_url payload)"
  shows "isl (get_json_data_in_pandas lib json_data)"
proof (rule ccontr)
  assume "\<not> isl (get_json_data_in_pandas lib json_data)"
  then obtain out json_data' where
    r: "get_json_data_in_pandas lib json_data = Inr (out, json_data')"
    by (cases "get_json_data_in_pandas lib json_data") auto
  from assms(2,3) have "no_successes successes = Inr False"
    by (intro py_iter_truthy) auto
  with r assms(1,2) obtain dfs rs' where
    n: "normalize_loop lib trials ([], [], []) = Inr (dfs, rs')"
    by (cases rule: get_json_data_in_pandas_Inr) auto
  from normalize_loop_each [OF n assms(3,4)] obtain cr ps xs r' where
    p: "process_trial lib trial = Inr (cr, ps, xs, r')" by blast
  then obtain eud where "result_rows eud r' = Inr xs"
    by (rule process_trial_Inr)
  moreover from process_trial_card(4) [OF p] assms(5)
  have "getitem r' ''results'' = Inr results" by simp
  ultimately have "\<not> isl (summary_url payload)"
    using assms(6,7) by (rule result_rows_Inr)
  with assms(8) show False by simp
qed

theorem missing_summary_url_raises_witness:
  "isl (get_json_data_in_pandas sample_pandas
     (sample_batch [sample_trial (JStr ''Study of Y'') sample_results,
                    sample_trial (JStr ''Study of Z'') (JObj [])]))"
  using missing_summary_url_raises
    [of "sample_batch [sample_trial (JStr ''Study of Y'') sample_results,
                    sample_trial (JStr ''Study of Z'') (JObj [])]"
        "JArr [sample_trial (JStr ''Study of Y'') sample_results,
                    sample_trial (JStr ''Study of Z'') (JObj [])]"
        "[sample_trial (JStr ''Study of Y'') sample_results,
                    sample_trial (JStr ''Study of Z'') (JObj [])]"
        "sample_trial (JStr ''Study of Y'') sample_results"
        sample_results
        "[(''1'', JObj [(''x'', JNull)]),
           (''2'', JObj [(''summary'', JObj [(''url'', JStr ''u2'')])])]"
        "''1''" "JObj [(''x'', JNull)]" sample_pandas]
  by (simp add: sample_batch_def sample_trial_def sample_results_def summary_url_def)

lemma endswith_append: "endswith (t @ suffix) suffix"
  by (simp add: endswith_def)

lemma full_title_rows:
  assumes "get_json_data_in_pandas lib json_data =
             Inr (Some (cards_df, protocols_df, results_df), json_data')"
    and "getitem json_data ''successes'' = Inr successes"
    and "py_iter successes = Inr trials"
  shows "list_all2 (\<lambda>trial row. title_truncated trial \<longrightarrow>
                       fallback_title trial = Inr (cr_full_title row))
           (filter truthy trials) cards_df"
proof -
  from assms(1) obtain successes' rs rs' where
    "getitem json_data ''successes'' = Inr successes'" "py_iter successes' = Inr rs"
    and n: "normalize_loop lib rs ([], [], []) = Inr ((cards_df, protocols_df, results_df), rs')"
    by (rule get_json_data_in_pandas_Some)
  with assms(2,3) have "rs = trials" by simp
  with normalize_loop_cards [OF n] have
    "list_all2 (\<lambda>r cr. \<exists>ps xs r'. process_trial lib r = Inr (cr, ps, xs, r'))
       (filter truthy trials) cards_df"
    by simp
  then show ?thesis
    by (rule list_all2_mono) (auto dest: process_trial_card(3))
qed

text \<open>
  Claim C6.  When the function returns data frames, take any trial that is not skipped
  and whose title ends in \<^verbatim>\<open>...\<close>, and whose list of protocols begins with a protocol
  that has, under \<^verbatim>\<open>"A. Protocol Information"\<close> and there under
  \<^verbatim>\<open>"Full title of the trial"\<close>, a list: the card of that trial has the first element
  of that list in its column \<^verbatim>\<open>full_title\<close>.  The card of the trial with the title
  \<^verbatim>\<open>Study of X...\<close> gets \<^verbatim>\<open>Study of X in adult patients\<close>, the first title of its
  first protocol.
\<close>

theorem full_title_fallback_rule:
  assumes "get_json_data_in_pandas lib json_data =
             Inr (Some (cards_df, protocols_df, results_df), json_data')"
    and "getitem json_data ''successes'' = Inr (JArr trials)"
    and "i < length (filter truthy trials)"
    and "filter truthy trials ! i = JObj trial"
    and "map_of trial ''card'' = Some (JObj crd)"
    and "map_of crd ''full_title'' = Some (JStr (t @ ''...''))"
    and "map_of trial ''protocols'' = Some (JArr (JObj first_protocol # other_protocols))"
    and "map_of first_protocol ''A. Protocol Information'' = Some (JObj information)"
    and "map_of information ''Full title of the trial'' = Some (JArr (title # other_titles))"
  shows "i < length cards_df \<and> cr_full_title (cards_df ! i) = title"
proof -
  have rows: "list_all2 (\<lambda>trial row. title_truncated trial \<longrightarrow>
                       fallback_title trial = Inr (cr_full_title row))
           (filter truthy trials) cards_df"
    using assms(1,2) by (rule full_title_rows) simp
  then have len: "length cards_df = length (filter truthy trials)"
    by (simp add: list_all2_lengthD)
  have "title_truncated (JObj trial)"
    using assms(5,6) endswith_append [of t "''...''"] by (simp add: title_truncated_def)
  moreover have "fallback_title (JObj trial) = Inr title"
    using assms(7,8,9)
    by (simp add: fallback_title_def first_protocol_full_title_def py_index_def)
  moreover from rows assms(3,4) have "title_truncated (JObj trial) \<longrightarrow>
      fallback_title (JObj trial) = Inr (cr_full_title (cards_df ! i))"
    by (auto simp: list_all2_conv_all_nth)
  ultimately show ?thesis using len assms(3) by simp
qed

theorem full_title_fallback_rule_witness:
  "map cr_full_title
     (fst (frames_of (get_json_data_in_pandas sample_pandas
        (sample_batch [sample_trial_two_titles])))) =
     [JStr ''Study of X in adult patients'']"
proof -
  obtain cards ps xs d' where
    r: "get_json_data_in_pandas sample_pandas (sample_batch [sample_trial_two_titles]) =
          Inr (Some (cards, ps, xs), d')"
    by (simp add: normalizer_defs sample_defs sample_trial_two_titles_def del: json_dumps.simps)
  have t: "filter truthy [sample_trial_two_titles] = [sample_trial_two_titles]"
    by (simp add: sample_trial_two_titles_def)
  have "0 < length cards \<and> cr_full_title (cards ! 0) = JStr ''Study of X in adult patients''"
    using full_title_fallback_rule [OF r, of "[sample_trial_two_titles]" 0 _ _ "''Study of X''"]
    unfolding t
    by (simp add: sample_batch_def sample_trial_two_titles_def sample_card_def)
  moreover have "length cards = 1"
    using r by (auto simp: normalizer_defs sample_defs sample_trial_two_titles_def
                     simp del: json_dumps.simps)
  ultimately have "map cr_full_title cards = [JStr ''Study of X in adult patients'']"
    by (cases cards) auto
  with r show ?thesis by (simp add: frames_of_def)
qed

lemma process_trial_cong:
  assumes "isnull lib2 = isnull lib1"
    and "case trial_start_date result of
           Inl e \<Rightarrow> True
         | Inr v \<Rightarrow> to_datetime lib2 v = to_datetime lib1 v"
  shows "process_trial lib2 result = process_trial lib1 result"
proof (cases "getitem result ''card''")
  case (Inl e)
  then show ?thesis by (simp add: process_trial_def)
next
  case c: (Inr crd)
  show ?thesis
  proof (cases "getitem crd ''start_date''")
    case (Inl e)
    with c show ?thesis
      by (simp add: process_trial_def bind_err_def split: sum.splits)
  next
    case (Inr v)
    with c assms(2) have "to_datetime lib2 v = to_datetime lib1 v"
      by (simp add: trial_start_date_def)
    with c Inr assms(1) show ?thesis
      by (simp add: process_trial_def bind_err_def split: sum.splits)
  qed
qed

lemma normalize_loop_cong:
  assumes "isnull lib2 = isnull lib1"
    and "list_all (\<lambda>trial. case trial_start_date trial of
                              Inl e \<Rightarrow> True
                            | Inr v \<Rightarrow> to_datetime lib2 v = to_datetime lib1 v) rs"
  shows "normalize_loop lib2 rs dfs = normalize_loop lib1 rs dfs"
  using assms(2)
proof (induction rs arbitrary: dfs)
  case Nil
  show ?case by simp
next
  case (Cons r rs)
  then have "process_trial lib2 r = process_trial lib1 r"
    using assms(1) by (intro process_trial_cong) simp_all
  with Cons show ?case
    by (simp add: bind_err_def split: sum.splits prod.splits)
qed

lemma get_json_data_in_pandas_cong:
  assumes "same_dates lib1 lib2 json_data"
  shows "get_json_data_in_pandas lib2 json_data = get_json_data_in_pandas lib1 json_data"
proof (cases "getitem json_data ''successes''")
  case (Inl e)
  then show ?thesis by (simp add: get_json_data_in_pandas_def)
next
  case s: (Inr successes)
  show ?thesis
  proof (cases "py_iter successes")
    case (Inl e)
    with s show ?thesis
      by (simp add: get_json_data_in_pandas_def bind_err_def split: sum.splits)
  next
    case (Inr rs)
    with s assms have "normalize_loop lib2 rs ([], [], []) = normalize_loop lib1 rs ([], [], [])"
      by (intro normalize_loop_cong) (simp_all add: same_dates_def)
    with s Inr show ?thesis
      by (simp add: get_json_data_in_pandas_def bind_err_def split: sum.splits)
  qed
qed

lemma second_run_same_library:
  assumes "get_json_data_in_pandas lib json_data = Inr (out, json_data')"
    and "full_titles_are_str out"
  shows "get_json_data_in_pandas lib json_data' = Inr (out, json_data')"
  using assms(1)
proof (cases rule: get_json_data_in_pandas_Inr)
  case (1 successes)
  with assms(1) show ?thesis by simp
next
  case (2 successes rs dfs rs')
  from assms(2) 2(5) have "list_all (\<lambda>row. is_str (cr_full_title row)) (fst dfs)"
    by (cases dfs) (simp add: full_titles_are_str_def)
  with 2(4) have again: "normalize_loop lib rs' ([], [], []) = Inr (dfs, rs')"
    by (rule normalize_loop_again)
  from 2(1) obtain kvs where k: "json_data = JObj kvs" by (auto simp: getitem_eq_Inr)
  show ?thesis
  proof (cases "\<exists>xs. successes = JArr xs")
    case False
    with 2(6) k have "json_data' = json_data" by (cases successes) simp_all
    with assms(1) show ?thesis by simp
  next
    case True
    then obtain xs where xs: "successes = JArr xs" ..
    with 2(3) have "rs = xs" by simp
    from normalize_loop_results [OF 2(4)] have "length rs' = length rs"
      by (simp add: list_all2_lengthD)
    moreover from 2(2) xs \<open>rs = xs\<close> have "rs \<noteq> []"
      by (auto simp: no_successes_def split: if_splits)
    ultimately have ne: "rs' \<noteq> []" by auto
    from 2(6) k xs have d': "json_data' = JObj (dict_set kvs ''successes'' (JArr rs'))" by simp
    show ?thesis
      unfolding d' get_json_data_in_pandas_def
      using ne again 2(5)
      by (simp add: map_of_dict_set no_successes_def dict_set_twice Suc_le_eq)
  qed
qed

text \<open>
  Claim C9, as first stated, fails, in two ways.  For a start date that is the word
  \<^verbatim>\<open>now\<close>, \<^verbatim>\<open>pd.to_datetime\<close> reads the clock, and two runs on the same input at two
  moments give two different tables of cards.  And the function changes its argument: when
  the first protocol gives a number where the full title is expected, line 138 stores it
  in the card, the first run returns its tables, and a second run on that object raises at
  line 137, where \<^verbatim>\<open>endswith\<close> is asked of a value that has no such method.
\<close>

theorem normalize_twice_differs:
  "map cr_start_date (fst (frames_of (get_json_data_in_pandas
       (sample_pandas_at ''2024-02-01 10:00:00'') (sample_batch [sample_trial_now])))) =
     [Some ''2024-02-01 10:00:00'']
   \<and> map cr_start_date (fst (frames_of (get_json_data_in_pandas
       (sample_pandas_at ''2024-02-01 10:00:01'') (sample_batch [sample_trial_now])))) =
     [Some ''2024-02-01 10:00:01'']
   \<and> \<not> isl (get_json_data_in_pandas sample_pandas (sample_batch [sample_trial_numbered]))
   \<and> get_json_data_in_pandas sample_pandas
         (snd (projr (get_json_data_in_pandas sample_pandas
                        (sample_batch [sample_trial_numbered])))) = Inl AttributeError"
  by (simp add: normalizer_defs sample_defs sample_pandas_at_def sample_trial_now_def
        sample_trial_numbered_def del: json_dumps.simps)

text \<open>
  Claim C9, amended.  Let \<^verbatim>\<open>pd.to_datetime\<close> answer the same at both runs for the start
  date of every trial.  Then two runs on equal arguments give the same result, the same
  three data frames or the same exception.  And when the titles that the first run put
  into the column \<^verbatim>\<open>full_title\<close> are strings, a second run on the very object that the
  first run was given, as the first run left it, returns the same data frames again, or
  \<^verbatim>\<open>(None, None, None)\<close> again, and changes nothing more.
\<close>

theorem normalize_twice:
  assumes "same_dates lib1 lib2 json_data"
  shows "get_json_data_in_pandas lib2 json_data = get_json_data_in_pandas lib1 json_data
         \<and> (get_json_data_in_pandas lib1 json_data = Inr (out, json_data')
               \<and> full_titles_are_str out
             \<longrightarrow> get_json_data_in_pandas lib2 json_data' = Inr (out, json_data'))"
proof -
  have eq: "get_json_data_in_pandas lib2 json_data = get_json_data_in_pandas lib1 json_data"
    using assms by (rule get_json_data_in_pandas_cong)
  then show ?thesis
    by (auto intro: second_run_same_library)
qed

theorem normalize_twice_witness:
  "get_json_data_in_pandas (sample_pandas_at ''2024-02-01 10:00:01'')
     (sample_batch [sample_trial (JStr ''Study of X in adult patients'') (JObj [])]) =
   get_json_data_in_pandas (sample_pandas_at ''2024-02-01 10:00:00'')
     (sample_batch [sample_trial (JStr ''Study of X...'') (JObj [])])
   \<and> \<not> isl (get_json_data_in_pandas (sample_pandas_at ''2024-02-01 10:00:00'')
              (sample_batch [sample_trial (JStr ''Study of X...'') (JObj [])]))"
proof -
  let ?lib1 = "sample_pandas_at ''2024-02-01 10:00:00''"
  let ?lib2 = "sample_pandas_at ''2024-02-01 10:00:01''"
  let ?before = "sample_batch [sample_trial (JStr ''Study of X...'') (JObj [])]"
  let ?after = "sample_batch [sample_trial (JStr ''Study of X in adult patients'') (JObj [])]"
  have d: "same_dates ?lib1 ?lib2 ?before"
    by (simp add: same_dates_def trial_start_date_def sample_pandas_at_def sample_defs)
  obtain out where r: "get_json_data_in_pandas ?lib1 ?before = Inr (out, ?after)"
    and s: "full_titles_are_str out"
    by (simp add: normalizer_defs sample_defs sample_pandas_at_def full_titles_are_str_def
          del: json_dumps.simps)
  from normalize_twice [OF d, of out ?after] r s show ?thesis by simp
qed

section \<open>Properties of the export\<close>

text \<open>
  Claim C4, as first stated, fails: the three calls of \<^verbatim>\<open>put_object\<close> follow one another
  without a \<^verbatim>\<open>try\<close>, so when the service rejects the first file the call ends and the
  other two files are never sent.
\<close>

theorem write_csv_to_s3_failure_suppresses_rest:
  "map Key (snd (write_csv_to_s3 sample_pandas sample_csv_writer
                   (\<lambda>request. Body request \<noteq> ''cards'')
                   (sample_batch [sample_trial (JStr ''Study of Y'') (JObj [])])
                   sample_query_details ''bucket'' ''key'' ''secret'' [])) =
     [''key/trial_info_cards_2024-01-01_2024-01-01_2024-02-01-00-00-00.csv'']"
  by (simp add: write_csv_to_s3_def put_object_def csv_filename_def sample_csv_writer_def
        sample_query_details_def normalizer_defs sample_defs Let_def del: json_dumps.simps)

text \<open>
  Claim C4, amended.  When the normalizer returns data frames, the three files are sent in
  the order cards, protocols, results, each only if every file before it was accepted:
  the requests sent are those up to and including the first one rejected, and the call
  raises exactly when one is rejected.
\<close>

theorem write_csv_to_s3_stops_at_first_failure:
  assumes "get_json_data_in_pandas lib json_object = Inr (Some dfs, json_object')"
  shows "write_csv_to_s3 lib csv accepts json_object query_details bucket key access_key sent =
           (if list_all accepts (export_requests csv query_details bucket key dfs)
            then Inr () else Inl ClientError,
            sent @ take (Suc (length (takeWhile accepts
                                        (export_requests csv query_details bucket key dfs))))
                     (export_requests csv query_details bucket key dfs))"
proof -
  obtain cards_df protocols_df results_df where "dfs = (cards_df, protocols_df, results_df)"
    by (cases dfs)
  with assms show ?thesis
    by (simp add: write_csv_to_s3_def export_requests_def put_object_def Let_def)
qed

theorem write_csv_to_s3_stops_at_first_failure_witness:
  "snd (write_csv_to_s3 sample_pandas sample_csv_writer
                   (\<lambda>request. Body request \<noteq> ''protocols'')
                   (sample_batch [sample_trial (JStr ''Study of Y'') (JObj [])])
                   sample_query_details ''bucket'' ''key'' ''secret'' []) =
     [\<lparr> Bucket = ''bucket'',
        Key = ''key/trial_info_cards_2024-01-01_2024-01-01_2024-02-01-00-00-00.csv'',
        Body = ''cards'' \<rparr>,
      \<lparr> Bucket = ''bucket'',
        Key = ''key/trial_protocols_2024-01-01_2024-01-01_2024-02-01-00-00-00.csv'',
        Body = ''protocols'' \<rparr>]"
proof -
  let ?batch = "sample_batch [sample_trial (JStr ''Study of Y'') (JObj [])]"
  obtain dfs d' where
    r: "get_json_data_in_pandas sample_pandas ?batch = Inr (Some dfs, d')"
    by (simp add: normalizer_defs sample_defs del: json_dumps.simps)
  obtain cards_df protocols_df results_df where d: "dfs = (cards_df, protocols_df, results_df)"
    by (cases dfs)
  show ?thesis
    unfolding write_csv_to_s3_stops_at_first_failure [OF r]
    by (simp add: d export_requests_def csv_filename_def sample_csv_writer_def
          sample_query_details_def)
qed

section \<open>Properties of the daily runs\<close>





text \<open>
  With the \<^verbatim>\<open>app/utils.py\<close> at hand, which has no \<^verbatim>\<open>write_csv_to_disk\<close>, the import
  of line 5 raises and the program does nothing.
\<close>

lemma program_without_writer:
  "write_csv_to_disk env = None \<Longrightarrow> program env start_arg end_arg = (Some ImportError, [])"
  by (simp add: program_def)




end
